theory Spec2Isabelle
  imports Complex_Main "HOL-Library.AList" "HOL-Library.Sublist"
begin

section \<open>Frames, errors and promise outcomes\<close>

text \<open>
  A frame is one JSON message of the server/agent WebSocket protocol, after
  \<^verbatim>\<open>JSON.parse\<close>. The fields are the ones the server reads; an absent property
  (\<^verbatim>\<open>undefined\<close>) is \<open>None\<close>. The field \<open>ftype\<close> is the property \<^verbatim>\<open>type\<close> of the
  sentinel \<^verbatim>\<open>{ type: "STREAM_END" }\<close> that the registry enqueues.
\<close>

record frame =
  event_type :: "string option"
  ftype :: "string option"
  request_id :: "string option"
  status :: "int option"
  message :: "string option"
  data :: "string option"
  headers :: "(string \<times> string) list option"

definition empty_frame :: frame where
  "empty_frame = \<lparr>event_type = None, ftype = None, request_id = None, status = None,
     message = None, data = None, headers = None\<rparr>"

text \<open>
  The exceptions of the server code. \<open>QueueClosedError m r\<close> has message \<open>m\<close> and
  reason \<open>r\<close>; \<open>Error m\<close> is a plain error with the message \<open>m\<close>, which is not
  JSON text.
\<close>

datatype js_error =
    QueueClosedError string string
  | QueueTimeoutError
  | Error string
  | TypeError string

datatype 'a outcome = Resolved 'a | Rejected js_error

section \<open>MessageQueue (src/utils/MessageQueue.js)\<close>

text \<open>
  The file holds two revisions of the class. The model follows the later one
  (lines 129 to 190), the one the last \<^verbatim>\<open>module.exports\<close> of the file refers to; the
  \<^verbatim>\<open>dequeue\<close> of the earlier revision (lines 57 to 76) is kept as \<open>dequeue_rev1\<close>.

  A resolver is the object \<^verbatim>\<open>{ resolve, reject, timeoutId }\<close> of a parked
  \<^verbatim>\<open>dequeue\<close>; \<open>rid\<close> names the promise that its two closures settle. What the
  methods do outside the queue object (timers, settling a promise) is returned as a
  list of effects, in program order.
\<close>

record resolver =
  rid :: nat
  timeoutId :: "nat option"

record 'a MessageQueue =
  messages :: "'a list"
  waitingResolvers :: "resolver list"
  defaultTimeout :: nat
  closed :: bool
  closeReason :: "string option"

datatype 'a effect =
    SetTimeout nat nat
  | ClearTimeout "nat option"
  | Resolve nat 'a
  | Reject nat js_error

definition new_MessageQueue :: "nat option \<Rightarrow> 'a MessageQueue" where
  "new_MessageQueue timeoutMs =
     \<lparr>messages = [], waitingResolvers = [],
      defaultTimeout = (case timeoutMs of None \<Rightarrow> 300000 | Some t \<Rightarrow> t),
      closed = False, closeReason = None\<rparr>"

definition enqueue :: "'a \<Rightarrow> 'a MessageQueue \<Rightarrow> 'a MessageQueue \<times> 'a effect list" where
  "enqueue m q =
     (if closed q then (q, [])
      else (case waitingResolvers q of
              r # rs \<Rightarrow>
                (case timeoutId r of
                   Some t \<Rightarrow> (q\<lparr>waitingResolvers := rs\<rparr>, [ClearTimeout (Some t), Resolve (rid r) m])
                 | None \<Rightarrow> (q\<lparr>waitingResolvers := rs, messages := messages q @ [m]\<rparr>, []))
            | [] \<Rightarrow> (q\<lparr>messages := messages q @ [m]\<rparr>, [])))"

definition closed_message :: "string \<Rightarrow> string" where
  "closed_message reason = ''Queue is closed (reason: '' @ reason @ '')''"

text \<open>
  \<open>dequeue timeoutMs n q\<close>: \<open>n\<close> is the identity of the promise the call returns, and of
  the timer it arms when it parks. \<open>current_reason\<close> is
  \<^verbatim>\<open>this.closeReason || "unknown"\<close>, which takes the default for \<^verbatim>\<open>null\<close> and for the
  empty string.
\<close>

definition current_reason :: "'a MessageQueue \<Rightarrow> string" where
  "current_reason q =
     (case closeReason q of None \<Rightarrow> ''unknown'' | Some r \<Rightarrow> if r = [] then ''unknown'' else r)"

definition dequeue :: "nat option \<Rightarrow> nat \<Rightarrow> 'a MessageQueue \<Rightarrow> 'a MessageQueue \<times> 'a effect list" where
  "dequeue timeoutMs n q =
     (if closed q then
        (q, [Reject n (QueueClosedError (closed_message (current_reason q)) (current_reason q))])
      else (case messages q of
              m # ms \<Rightarrow> (q\<lparr>messages := ms\<rparr>, [Resolve n m])
            | [] \<Rightarrow>
                (q\<lparr>waitingResolvers := waitingResolvers q @ [\<lparr>rid = n, timeoutId = Some n\<rparr>]\<rparr>,
                 [SetTimeout n (case timeoutMs of None \<Rightarrow> defaultTimeout q | Some t \<Rightarrow> t)])))"

text \<open>The callback of the timer of the parked call \<open>n\<close>.\<close>

fun splice_rid :: "nat \<Rightarrow> resolver list \<Rightarrow> resolver list" where
  "splice_rid n [] = []"
| "splice_rid n (r # rs) = (if rid r = n then rs else r # splice_rid n rs)"

definition dequeue_timeout :: "nat \<Rightarrow> 'a MessageQueue \<Rightarrow> 'a MessageQueue \<times> 'a effect list" where
  "dequeue_timeout n q =
     (q\<lparr>waitingResolvers := splice_rid n (waitingResolvers q)\<rparr>, [Reject n QueueTimeoutError])"

fun reject_all :: "string \<Rightarrow> resolver list \<Rightarrow> 'a effect list" where
  "reject_all reason [] = []"
| "reject_all reason (r # rs) =
     ClearTimeout (timeoutId r) # Reject (rid r) (QueueClosedError (closed_message reason) reason)
       # reject_all reason rs"

text \<open>\<open>close None\<close> is the call without an argument: the parameter takes its default.\<close>

definition reason_arg :: "string option \<Rightarrow> string" where
  "reason_arg reasonArg = (case reasonArg of None \<Rightarrow> ''unknown'' | Some r \<Rightarrow> r)"

definition close :: "string option \<Rightarrow> 'a MessageQueue \<Rightarrow> 'a MessageQueue \<times> 'a effect list" where
  "close reasonArg q =
     (q\<lparr>closed := True, closeReason := Some (reason_arg reasonArg), waitingResolvers := [],
        messages := []\<rparr>,
      reject_all (reason_arg reasonArg) (waitingResolvers q))"

text \<open>The earlier revision of \<^verbatim>\<open>dequeue\<close>: a closed queue throws the default error.\<close>

definition dequeue_rev1 :: "nat option \<Rightarrow> nat \<Rightarrow> 'a MessageQueue \<Rightarrow> 'a MessageQueue \<times> 'a effect list" where
  "dequeue_rev1 timeoutMs n q =
     (if closed q then (q, [Reject n (QueueClosedError ''Queue is closed'' ''unknown'')])
      else (case messages q of
              m # ms \<Rightarrow> (q\<lparr>messages := ms\<rparr>, [Resolve n m])
            | [] \<Rightarrow>
                (q\<lparr>waitingResolvers := waitingResolvers q @ [\<lparr>rid = n, timeoutId = Some n\<rparr>]\<rparr>,
                 [SetTimeout n (case timeoutMs of None \<Rightarrow> defaultTimeout q | Some t \<Rightarrow> t)])))"

subsection \<open>Runs of one queue on the event loop\<close>

text \<open>
  Every method and every timer callback runs to completion on the event loop, so a run
  is a sequence of operations. The world holds the queue, the armed timers and the
  calls of \<^verbatim>\<open>resolve\<close> and \<^verbatim>\<open>reject\<close> made so far, in order. A timer fires only while
  it is armed.
\<close>

record 'a world =
  queue :: "'a MessageQueue"
  timers :: "nat list"
  settled :: "(nat \<times> 'a outcome) list"
  fresh :: nat

datatype 'a op = Enqueue 'a | Dequeue "nat option" | Close "string option" | TimerFires nat

fun apply_effect :: "'a world \<Rightarrow> 'a effect \<Rightarrow> 'a world" where
  "apply_effect w (SetTimeout t ms) = w\<lparr>timers := timers w @ [t]\<rparr>"
| "apply_effect w (ClearTimeout None) = w"
| "apply_effect w (ClearTimeout (Some t)) = w\<lparr>timers := removeAll t (timers w)\<rparr>"
| "apply_effect w (Resolve p v) = w\<lparr>settled := settled w @ [(p, Resolved v)]\<rparr>"
| "apply_effect w (Reject p e) = w\<lparr>settled := settled w @ [(p, Rejected e)]\<rparr>"

definition perform :: "'a world \<Rightarrow> 'a MessageQueue \<times> 'a effect list \<Rightarrow> 'a world" where
  "perform w r = foldl apply_effect (w\<lparr>queue := fst r\<rparr>) (snd r)"

fun step :: "'a world \<Rightarrow> 'a op \<Rightarrow> 'a world" where
  "step w (Enqueue m) = perform w (enqueue m (queue w))"
| "step w (Dequeue timeoutMs) =
     perform (w\<lparr>fresh := Suc (fresh w)\<rparr>) (dequeue timeoutMs (fresh w) (queue w))"
| "step w (Close r) = perform w (close r (queue w))"
| "step w (TimerFires t) =
     (if t \<in> set (timers w)
      then perform (w\<lparr>timers := removeAll t (timers w)\<rparr>) (dequeue_timeout t (queue w))
      else w)"

definition init_world :: "'a world" where
  "init_world = \<lparr>queue = new_MessageQueue None, timers = [], settled = [], fresh = 0\<rparr>"

definition run :: "'a op list \<Rightarrow> 'a world" where
  "run ops = foldl step init_world ops"


fun delivered :: "(nat \<times> 'a outcome) list \<Rightarrow> 'a list" where
  "delivered [] = []"
| "delivered ((p, Resolved v) # l) = v # delivered l"
| "delivered ((p, Rejected e) # l) = delivered l"

fun receivers :: "(nat \<times> 'a outcome) list \<Rightarrow> nat list" where
  "receivers [] = []"
| "receivers ((p, Resolved v) # l) = p # receivers l"
| "receivers ((p, Rejected e) # l) = receivers l"

subsection \<open>Invariants of a run\<close>






section \<open>ConnectionRegistry (src/core/ConnectionRegistry.js)\<close>

text \<open>
  Queues are objects shared between the registry, which enqueues, and the request
  pipeline, which dequeues; the model keeps them in a store, and the map
  \<^verbatim>\<open>messageQueues\<close> holds addresses. The map is an association list in insertion
  order, as a JavaScript \<^verbatim>\<open>Map\<close> iterates; \<^verbatim>\<open>connections\<close> is the \<^verbatim>\<open>Set\<close> of sockets.
  \<open>hasCallback\<close> says whether \<^verbatim>\<open>onConnectionLostCallback\<close> was given.
\<close>

type_synonym addr = nat

record registry =
  connections :: "nat list"
  messageQueues :: "(string \<times> addr) list"
  reconnectGraceTimer :: "nat option"
  isReconnecting :: bool
  hasCallback :: bool

text \<open>
  The server state: the registry, the store of queue objects, the grace timers armed on
  the event loop, the effects of queue methods so far (with the address of the queue),
  the number of calls of \<^verbatim>\<open>onConnectionLostCallback\<close> so far, whether such a call is
  still awaited, and the events emitted.
\<close>

record server =
  reg :: registry
  heap :: "addr \<Rightarrow> frame MessageQueue"
  nextAddr :: addr
  nextTimer :: nat
  armed :: "nat list"
  effects :: "(addr \<times> frame effect) list"
  lostCalls :: nat
  awaiting :: bool
  emitted :: "string list"

definition new_ConnectionRegistry :: "bool \<Rightarrow> registry" where
  "new_ConnectionRegistry cb =
     \<lparr>connections = [], messageQueues = [], reconnectGraceTimer = None,
      isReconnecting = False, hasCallback = cb\<rparr>"

definition init_server :: "bool \<Rightarrow> server" where
  "init_server cb =
     \<lparr>reg = new_ConnectionRegistry cb, heap = (\<lambda>a. new_MessageQueue None), nextAddr = 0,
      nextTimer = 0, armed = [], effects = [], lostCalls = 0, awaiting = False, emitted = []\<rparr>"

text \<open>A method call on the queue object at address \<open>a\<close>.\<close>

definition on_queue ::
  "addr \<Rightarrow> (frame MessageQueue \<Rightarrow> frame MessageQueue \<times> frame effect list) \<Rightarrow> server \<Rightarrow> server" where
  "on_queue a f s =
     s\<lparr>heap := (heap s)(a := fst (f (heap s a))),
       effects := effects s @ map (Pair a) (snd (f (heap s a)))\<rparr>"

text \<open>\<^verbatim>\<open>this.messageQueues.forEach(queue => queue.close()); this.messageQueues.clear();\<close>\<close>

definition close_all :: "server \<Rightarrow> server" where
  "close_all s =
     (foldl (\<lambda>s' kv. on_queue (snd kv) (close None) s') s (messageQueues (reg s)))
       \<lparr>reg := (reg s)\<lparr>messageQueues := []\<rparr>\<rparr>"

definition emit :: "string \<Rightarrow> server \<Rightarrow> server" where
  "emit e s = s\<lparr>emitted := emitted s @ [e]\<rparr>"

definition addConnection :: "nat \<Rightarrow> server \<Rightarrow> server" where
  "addConnection websocket s =
     (let s1 = (case reconnectGraceTimer (reg s) of
                  Some t \<Rightarrow>
                    close_all (s\<lparr>armed := removeAll t (armed s),
                                 reg := (reg s)\<lparr>reconnectGraceTimer := None\<rparr>\<rparr>)
                | None \<Rightarrow> s);
          s2 = s1\<lparr>reg := (reg s1)\<lparr>connections :=
                  (if websocket \<in> set (connections (reg s1)) then connections (reg s1)
                   else connections (reg s1) @ [websocket])\<rparr>\<rparr>
      in emit ''connectionAdded'' s2)"

definition removeConnection :: "nat \<Rightarrow> server \<Rightarrow> server" where
  "removeConnection websocket s =
     (let s1 = s\<lparr>reg := (reg s)\<lparr>connections := removeAll websocket (connections (reg s))\<rparr>\<rparr>;
          s2 = (case reconnectGraceTimer (reg s1) of
                  Some t \<Rightarrow> s1\<lparr>armed := removeAll t (armed s1)\<rparr>
                | None \<Rightarrow> s1);
          s3 = s2\<lparr>reg := (reg s2)\<lparr>reconnectGraceTimer := Some (nextTimer s2)\<rparr>,
                  armed := armed s2 @ [nextTimer s2], nextTimer := Suc (nextTimer s2)\<rparr>
      in emit ''connectionRemoved'' s3)"

text \<open>
  The callback of the grace timer, up to its \<^verbatim>\<open>await\<close>, and the rest of it once the
  awaited promise of \<^verbatim>\<open>onConnectionLostCallback\<close> has settled (the \<^verbatim>\<open>finally\<close> block and
  the two statements after it). Without a callback, or while \<open>isReconnecting\<close> holds,
  the callback runs to its end at once.
\<close>

definition grace_end :: "server \<Rightarrow> server" where
  "grace_end s = (emit ''connectionLost'' s)\<lparr>reg := (reg s)\<lparr>reconnectGraceTimer := None\<rparr>\<rparr>"

definition grace_callback :: "server \<Rightarrow> server" where
  "grace_callback s =
     (let s1 = close_all s
      in if hasCallback (reg s1) \<and> \<not> isReconnecting (reg s1)
         then s1\<lparr>reg := (reg s1)\<lparr>isReconnecting := True\<rparr>,
                 lostCalls := Suc (lostCalls s1), awaiting := True\<rparr>
         else grace_end s1)"

definition callback_settled :: "server \<Rightarrow> server" where
  "callback_settled s =
     (if awaiting s
      then grace_end (s\<lparr>reg := (reg s)\<lparr>isReconnecting := False\<rparr>, awaiting := False\<rparr>)
      else s)"

definition grace_timer_fires :: "nat \<Rightarrow> server \<Rightarrow> server" where
  "grace_timer_fires t s =
     (if t \<in> set (armed s) then grace_callback (s\<lparr>armed := removeAll t (armed s)\<rparr>) else s)"

text \<open>\<open>routeMessage\<close>: the frame the queue receives, if any.\<close>

definition routeMessage :: "frame \<Rightarrow> frame option" where
  "routeMessage m =
     (if event_type m = Some ''response_headers'' \<or> event_type m = Some ''chunk''
         \<or> event_type m = Some ''error''
      then Some m
      else if event_type m = Some ''stream_close''
      then Some (empty_frame\<lparr>ftype := Some ''STREAM_END''\<rparr>)
      else None)"

text \<open>
  \<open>handleIncomingMessage\<close> takes the result of \<^verbatim>\<open>JSON.parse\<close> (\<open>None\<close> when it throws).
  A missing or empty \<^verbatim>\<open>request_id\<close> is falsy.
\<close>

definition handleIncomingMessage :: "frame option \<Rightarrow> server \<Rightarrow> server" where
  "handleIncomingMessage parsed s =
     (case parsed of
        None \<Rightarrow> s
      | Some m \<Rightarrow>
          (case request_id m of
             None \<Rightarrow> s
           | Some requestId \<Rightarrow>
               if requestId = [] then s
               else (case map_of (messageQueues (reg s)) requestId of
                       None \<Rightarrow> s
                     | Some a \<Rightarrow>
                         (case routeMessage m of
                            None \<Rightarrow> s
                          | Some v \<Rightarrow> on_queue a (enqueue v) s))))"

text \<open>
  \<open>createMessageQueue\<close> returns the new queue (its address) with the state. In this
  file the method takes the request id only; a second argument of a caller is ignored.
\<close>

definition createMessageQueue :: "string \<Rightarrow> server \<Rightarrow> addr \<times> server" where
  "createMessageQueue requestId s =
     (nextAddr s,
      s\<lparr>heap := (heap s)(nextAddr s := new_MessageQueue None),
        nextAddr := Suc (nextAddr s),
        reg := (reg s)\<lparr>messageQueues := AList.update requestId (nextAddr s) (messageQueues (reg s))\<rparr>\<rparr>)"

text \<open>
  \<open>removeMessageQueue\<close> has one parameter in this file: the reason that callers pass
  as a second argument is dropped, and the queue is closed without one.
\<close>

definition removeMessageQueue :: "string \<Rightarrow> server \<Rightarrow> server" where
  "removeMessageQueue requestId s =
     (case map_of (messageQueues (reg s)) requestId of
        Some a \<Rightarrow>
          (on_queue a (close None) s)
            \<lparr>reg := (reg s)\<lparr>messageQueues := AList.delete requestId (messageQueues (reg s))\<rparr>\<rparr>
      | None \<Rightarrow> s)"

definition hasActiveConnections :: "server \<Rightarrow> bool" where
  "hasActiveConnections s = (connections (reg s) \<noteq> [])"

definition isInGracePeriod :: "server \<Rightarrow> bool" where
  "isInGracePeriod s = (reconnectGraceTimer (reg s) \<noteq> None)"

section \<open>RequestHandler (src/core/RequestHandler.js)\<close>

subsection \<open>Connection-reset errors\<close>

definition str_includes :: "string \<Rightarrow> string \<Rightarrow> bool" where
  "str_includes s needle = sublist needle s"

definition reset_text :: "string \<Rightarrow> bool" where
  "reset_text m \<longleftrightarrow>
     str_includes m ''Queue closed'' \<or> str_includes m ''Queue is closed'' \<or> str_includes m ''Connection lost''"

text \<open>
  The strings of a frame. \<^verbatim>\<open>JSON.stringify\<close> writes no blank outside a string literal and
  escapes a character by a backslash sequence in lower case, so the JSON text of a frame
  contains one of the three texts of \<open>reset_text\<close> (each has a blank inside and starts
  with a capital letter) exactly when one of the strings of the frame does.
\<close>

definition frame_strings :: "frame \<Rightarrow> string list" where
  "frame_strings f =
     (case event_type f of None \<Rightarrow> [] | Some s \<Rightarrow> [s]) @
     (case ftype f of None \<Rightarrow> [] | Some s \<Rightarrow> [s]) @
     (case request_id f of None \<Rightarrow> [] | Some s \<Rightarrow> [s]) @
     (case message f of None \<Rightarrow> [] | Some s \<Rightarrow> [s]) @
     (case data f of None \<Rightarrow> [] | Some s \<Rightarrow> [s]) @
     (case headers f of None \<Rightarrow> [] | Some hs \<Rightarrow> concat (map (\<lambda>kv. [fst kv, snd kv]) hs))"

definition json_text_resets :: "frame \<Rightarrow> bool" where
  "json_text_resets f = list_ex reset_text (frame_strings f)"

definition error_message :: "js_error \<Rightarrow> string" where
  "error_message e =
     (case e of
        QueueClosedError m r \<Rightarrow> m
      | QueueTimeoutError \<Rightarrow> ''Queue timeout''
      | Error m \<Rightarrow> m
      | TypeError m \<Rightarrow> m)"

text \<open>
  What the \<^verbatim>\<open>catch\<close> block of the retry loop catches: an exception, or the structured
  error \<^verbatim>\<open>new Error(JSON.stringify(f))\<close> that the \<^verbatim>\<open>try\<close> block throws for a frame \<open>f\<close>.
  The message of the latter is the JSON text of \<open>f\<close>; the code reads it through
  \<^verbatim>\<open>JSON.parse\<close>, which gives \<open>f\<close> back, and through the test of the message below.
\<close>

datatype caught = Thrown js_error | Structured frame

text \<open>
  \<open>isConnectionResetError\<close> on an exception: the class test, the code test (only
  \<open>QueueClosedError\<close> has the code \<^verbatim>\<open>QUEUE_CLOSED\<close>), then the test of the message.
\<close>

definition isConnectionResetError :: "js_error \<Rightarrow> bool" where
  "isConnectionResetError e =
     (case e of
        QueueClosedError m r \<Rightarrow> True
      | _ \<Rightarrow> error_message e \<noteq> [] \<and> reset_text (error_message e))"

definition isConnectionResetError_caught :: "caught \<Rightarrow> bool" where
  "isConnectionResetError_caught c =
     (case c of Thrown e \<Rightarrow> isConnectionResetError e | Structured f \<Rightarrow> json_text_resets f)"

text \<open>
  The same method on \<^verbatim>\<open>result.error\<close>, a plain object (or \<^verbatim>\<open>null\<close>) with \<^verbatim>\<open>message\<close> and
  \<^verbatim>\<open>status\<close>: it is no \<open>QueueClosedError\<close> and has no \<^verbatim>\<open>code\<close>.
\<close>

definition isConnectionResetError_obj :: "frame option \<Rightarrow> bool" where
  "isConnectionResetError_obj e =
     (case e of
        None \<Rightarrow> False
      | Some f \<Rightarrow> (case message f of None \<Rightarrow> False | Some m \<Rightarrow> m \<noteq> [] \<and> reset_text m))"

subsection \<open>The retry loop\<close>

record config =
  maxRetries :: int
  retryDelay :: int
  immediateSwitchStatusCodes :: "int list option"

text \<open>
  What the loop awaits is decided outside it, so it is a parameter: for each attempt,
  whether \<^verbatim>\<open>_forwardRequest\<close> throws (no socket for the current account), how the
  awaited \<^verbatim>\<open>dequeue\<close> settles, and the value of \<^verbatim>\<open>currentAuthIndex\<close> when the \<^verbatim>\<open>catch\<close>
  block of the attempt runs.
\<close>

record env =
  forward :: "int \<Rightarrow> js_error option"
  first :: "int \<Rightarrow> frame outcome"
  authIndexAt :: "int \<Rightarrow> int"

datatype action =
    ForwardRequest int
  | CancelBrowserRequest string int
  | CloseQueue nat string
  | CreateMessageQueue string int
  | Sleep int

datatype retry_result = Success frame nat | Failure "frame option"

datatype attempt_outcome =
    Done retry_result "action list"
  | Again "action list" int "frame option"

definition timeout_frame :: frame where
  "timeout_frame = empty_frame\<lparr>event_type := Some ''error'',
     message := Some ''Request timed out waiting for browser response.'', status := Some 504\<rparr>"

definition connection_lost_error :: frame where
  "connection_lost_error =
     empty_frame\<lparr>message := Some ''Connection lost (client disconnect)'', status := Some 503\<rparr>"

text \<open>The \<^verbatim>\<open>try\<close> block of one attempt: the frame returned, or the exception thrown.\<close>

definition try_attempt :: "env \<Rightarrow> int \<Rightarrow> (caught + frame) \<times> action list" where
  "try_attempt ev attempt =
     (case forward ev attempt of
        Some e \<Rightarrow> (Inl (Thrown e), [])
      | None \<Rightarrow>
          (case first ev attempt of
             Rejected e \<Rightarrow> (Inl (Thrown e), [ForwardRequest attempt])
           | Resolved initialMessage \<Rightarrow>
               if event_type initialMessage = Some ''timeout''
               then (Inl (Structured timeout_frame), [ForwardRequest attempt])
               else if event_type initialMessage = Some ''error''
               then (Inl (Structured initialMessage), [ForwardRequest attempt])
               else (Inr initialMessage, [ForwardRequest attempt])))"

text \<open>\<^verbatim>\<open>JSON.parse(error.message)\<close>, with the fallback of the inner \<^verbatim>\<open>catch\<close>.\<close>

definition errorPayload :: "caught \<Rightarrow> frame" where
  "errorPayload c =
     (case c of
        Structured f \<Rightarrow> f
      | Thrown e \<Rightarrow> empty_frame\<lparr>message := Some (error_message e), status := Some 500\<rparr>)"

definition is_immediate :: "config \<Rightarrow> frame \<Rightarrow> bool" where
  "is_immediate cfg p =
     (case immediateSwitchStatusCodes cfg of
        None \<Rightarrow> False
      | Some codes \<Rightarrow> (case status p of None \<Rightarrow> False | Some st \<Rightarrow> st \<in> set codes))"

text \<open>
  One pass through the loop body for the queue number \<open>cq\<close> (0 is the queue the caller
  passed, \<open>k\<close> the one created by the \<open>k\<close>-th retry), bound to the account
  \<open>currentQueueAuthIndex\<close>.
\<close>

definition run_attempt :: "config \<Rightarrow> env \<Rightarrow> string \<Rightarrow> int \<Rightarrow> nat \<Rightarrow> int \<Rightarrow> attempt_outcome" where
  "run_attempt cfg ev requestId attempt cq currentQueueAuthIndex =
     (case try_attempt ev attempt of
        (Inr initialMessage, acts) \<Rightarrow> Done (Success initialMessage cq) acts
      | (Inl e, acts) \<Rightarrow>
          if isConnectionResetError_caught e then Done (Failure (Some connection_lost_error)) acts
          else if is_immediate cfg (errorPayload e) then Done (Failure (Some (errorPayload e))) acts
          else if attempt \<ge> maxRetries cfg then Done (Failure (Some (errorPayload e))) acts
          else Again
                 (acts @ [CancelBrowserRequest requestId currentQueueAuthIndex,
                          CloseQueue cq ''retry_creating_new_queue'',
                          CreateMessageQueue requestId (authIndexAt ev attempt),
                          Sleep (retryDelay cfg)])
                 (authIndexAt ev attempt) (Some (errorPayload e)))"

function retry_loop ::
  "config \<Rightarrow> env \<Rightarrow> string \<Rightarrow> int \<Rightarrow> nat \<Rightarrow> int \<Rightarrow> frame option \<Rightarrow> action list
     \<Rightarrow> retry_result \<times> action list" where
  "retry_loop cfg ev requestId attempt cq currentQueueAuthIndex lastError acts =
     (if attempt \<le> maxRetries cfg
      then (case run_attempt cfg ev requestId attempt cq currentQueueAuthIndex of
              Done r a \<Rightarrow> (r, acts @ a)
            | Again a auth err \<Rightarrow> retry_loop cfg ev requestId (attempt + 1) (Suc cq) auth err (acts @ a))
      else (Failure lastError, acts))"
  by pat_completeness auto
termination
  by (relation "measure (\<lambda>(cfg, ev, requestId, attempt, cq, a, le, acts). nat (maxRetries cfg + 1 - attempt))")
    auto

text \<open>\<open>executeRequestWithRetries\<close>: \<open>auth0\<close> is \<^verbatim>\<open>currentAuthIndex\<close> at the call.\<close>

definition executeRequestWithRetries ::
  "config \<Rightarrow> env \<Rightarrow> string \<Rightarrow> int \<Rightarrow> retry_result \<times> action list" where
  "executeRequestWithRetries cfg ev requestId auth0 = retry_loop cfg ev requestId 1 0 auth0 None []"

subsection \<open>JSON values\<close>

text \<open>
  The result of \<^verbatim>\<open>JSON.parse\<close>: an object is the list of its properties in order, with
  distinct names; a number is the value of the parsed double. \<open>None\<close> in a
  \<open>json option\<close> is \<^verbatim>\<open>undefined\<close>.
\<close>

datatype json =
    JNull
  | JBool bool
  | JNum rat
  | JStr string
  | JArr "json list"
  | JObj "(string \<times> json) list"

definition truthy :: "json option \<Rightarrow> bool" where
  "truthy v =
     (case v of
        None \<Rightarrow> False
      | Some JNull \<Rightarrow> False
      | Some (JBool b) \<Rightarrow> b
      | Some (JNum n) \<Rightarrow> n \<noteq> 0
      | Some (JStr s) \<Rightarrow> s \<noteq> []
      | Some (JArr xs) \<Rightarrow> True
      | Some (JObj kvs) \<Rightarrow> True)"

definition null_read :: "string \<Rightarrow> string" where
  "null_read name =
     ''Cannot read properties of null (reading '' @ [CHR 0x27] @ name @ [CHR 0x27] @ '')''"

text \<open>
  \<open>get_prop v name\<close> is \<^verbatim>\<open>v.name\<close> for the names the handler reads (\<^verbatim>\<open>candidates\<close>,
  \<^verbatim>\<open>content\<close>, \<^verbatim>\<open>parts\<close>, \<^verbatim>\<open>role\<close>, \<^verbatim>\<open>thought\<close>, \<^verbatim>\<open>finishReason\<close>, \<^verbatim>\<open>usageMetadata\<close>,
  \<^verbatim>\<open>inlineData\<close>, \<^verbatim>\<open>mimeType\<close>, \<^verbatim>\<open>data\<close>): none of them is a property of a string, a
  number, a boolean or an array, and reading a property of \<^verbatim>\<open>null\<close> throws.
\<close>

definition get_prop :: "json \<Rightarrow> string \<Rightarrow> js_error + json option" where
  "get_prop v name =
     (case v of
        JNull \<Rightarrow> Inl (TypeError (null_read name))
      | JObj kvs \<Rightarrow> Inr (map_of kvs name)
      | _ \<Rightarrow> Inr None)"

text \<open>\<^verbatim>\<open>v?.[0]\<close> for \<open>v\<close> that may be \<^verbatim>\<open>undefined\<close>.\<close>

definition optional_first :: "json option \<Rightarrow> json option" where
  "optional_first v =
     (case v of
        None \<Rightarrow> None
      | Some JNull \<Rightarrow> None
      | Some (JArr xs) \<Rightarrow> (case xs of [] \<Rightarrow> None | x # _ \<Rightarrow> Some x)
      | Some (JStr s) \<Rightarrow> (case s of [] \<Rightarrow> None | c # _ \<Rightarrow> Some (JStr [c]))
      | Some (JObj kvs) \<Rightarrow> map_of kvs ''0''
      | Some _ \<Rightarrow> None)"

text \<open>
  An object literal whose property values may be \<^verbatim>\<open>undefined\<close>, as \<^verbatim>\<open>JSON.stringify\<close>
  writes it: a property with the value \<^verbatim>\<open>undefined\<close> is left out.
\<close>

fun object_literal :: "(string \<times> json option) list \<Rightarrow> (string \<times> json) list" where
  "object_literal [] = []"
| "object_literal ((k, None) # kvs) = object_literal kvs"
| "object_literal ((k, Some v) # kvs) = (k, v) # object_literal kvs"

subsection \<open>The HTTP response\<close>

text \<open>
  The response object: the flags the handlers test, the \<^verbatim>\<open>Content-Type\<close> header, and the
  calls made on it. \<open>writable\<close> is the conjunction
  \<^verbatim>\<open>!res.destroyed && res.socket && !res.socket.destroyed && res.socket.writable !== false\<close>,
  which the client side decides. \<open>Write_data v\<close> is
  \<^verbatim>\<open>res.write(`data: ${JSON.stringify(v)}\n\n`)\<close> and \<open>Write_raw s\<close> is
  \<^verbatim>\<open>res.write(`data: ${s}\n\n`)\<close>; \<open>SendError c m\<close> is the JSON error body with code \<open>c\<close>
  and message \<open>m\<close>, sent with status \<open>c\<close>.
\<close>

datatype res_call =
    SendError int "string option"
  | SetResponseHeaders frame
  | TypeJsonIfUnset
  | Send string
  | Write_data json
  | Write_raw string
  | End

record response =
  headersSent :: bool
  writableEnded :: bool
  writable :: bool
  contentType :: "string option"
  calls :: "res_call list"

definition new_response :: response where
  "new_response = \<lparr>headersSent = False, writableEnded = False, writable = True,
     contentType = None, calls = []\<rparr>"

definition sendErrorResponse :: "int \<Rightarrow> string option \<Rightarrow> response \<Rightarrow> response" where
  "sendErrorResponse st msg r =
     (if headersSent r then r
      else r\<lparr>headersSent := True, writableEnded := True, contentType := Some ''application/json'',
             calls := calls r @ [SendError (if st = 0 then 500 else st) msg]\<rparr>)"

definition isResponseWritable :: "response \<Rightarrow> bool" where
  "isResponseWritable r \<longleftrightarrow> \<not> writableEnded r \<and> writable r"

definition set_sse_headers :: "response \<Rightarrow> response" where
  "set_sse_headers r = (if headersSent r then r else r\<lparr>contentType := Some ''text/event-stream''\<rparr>)"

definition res_write :: "res_call \<Rightarrow> response \<Rightarrow> response" where
  "res_write c r = r\<lparr>headersSent := True, calls := calls r @ [c]\<rparr>"

definition res_end :: "response \<Rightarrow> response" where
  "res_end r = r\<lparr>headersSent := True, writableEnded := True, calls := calls r @ [End]\<rparr>"

definition sendErrorChunkToClient :: "string option \<Rightarrow> response \<Rightarrow> response" where
  "sendErrorChunkToClient msg r =
     (let r1 = set_sse_headers r
      in if isResponseWritable r1
         then res_write (Write_data (JObj (object_literal [(''error'', map_option JStr msg)]))) r1
         else r1)"

definition lower_char :: "char \<Rightarrow> char" where
  "lower_char c =
     (if (65::nat) \<le> of_char c \<and> of_char c \<le> (90::nat) then char_of (of_char c + (32::nat)) else c)"

definition toLowerCase :: "string \<Rightarrow> string" where
  "toLowerCase s = map lower_char s"

text \<open>
  \<open>handleRequestError\<close>, for the exceptions that reach a handler's \<^verbatim>\<open>catch\<close>. \<open>fake\<close> says
  whether \<^verbatim>\<open>serverSystem.streamingMode\<close> is \<^verbatim>\<open>"fake"\<close>.
\<close>

definition handleRequestError :: "bool \<Rightarrow> js_error \<Rightarrow> response \<Rightarrow> response" where
  "handleRequestError fake e r =
     (let errorMsg = error_message e; timeout = str_includes (toLowerCase errorMsg) ''timeout''
      in if headersSent r then
           (if isResponseWritable r then
              res_end
                (if (case contentType r of None \<Rightarrow> False | Some ct \<Rightarrow> str_includes ct ''text/event-stream'')
                 then res_write (Write_data (JObj [(''error'', JObj
                        [(''code'', JNum (if timeout then 504 else 500)),
                         (''message'', JStr ((if timeout then ''Stream timeout: '' else ''Processing failed: '')
                                              @ errorMsg)),
                         (''type'', JStr (if timeout then ''timeout_error'' else ''api_error''))])])) r
                 else if fake then sendErrorChunkToClient (Some (''Processing failed: '' @ errorMsg)) r
                 else r)
            else r)
         else sendErrorResponse
                (if timeout then 504 else if isConnectionResetError e then 503 else 500)
                (Some (''Proxy error: '' @ errorMsg)) r)"

subsection \<open>The non-stream handler\<close>

text \<open>
  The pipeline state a handler works on: the failure counter of the account switcher,
  the errors handed to \<^verbatim>\<open>handleRequestFailureAndSwitch\<close>, and the response.
\<close>

record pipeline =
  failureCount :: nat
  switchCalls :: "frame list"
  res :: response

text \<open>
  Modelled from the spec: \<^verbatim>\<open>AuthSwitcher.handleRequestFailureAndSwitch\<close> is not among the
  sources. The spec's \<^verbatim>\<open>recordFailure(status)\<close> increments the failure counter and then
  decides on a rotation; the model increments the counter and records the call, and
  leaves the rotation out.
\<close>

definition handleRequestFailureAndSwitch :: "frame \<Rightarrow> pipeline \<Rightarrow> pipeline" where
  "handleRequestFailureAndSwitch err p =
     p\<lparr>failureCount := Suc (failureCount p), switchCalls := switchCalls p @ [err]\<rparr>"

definition status_or_500 :: "frame \<Rightarrow> int" where
  "status_or_500 e = (case status e of None \<Rightarrow> 500 | Some st \<Rightarrow> if st = 0 then 500 else st)"

text \<open>
  The branch \<^verbatim>\<open>if (!result.success)\<close> of \<open>handleNonStreamResponse\<close>. \<open>isUserAborted\<close> is
  \<^verbatim>\<open>isUserAbortedError\<close> of \<^verbatim>\<open>utils/CustomErrors\<close>, which is not among the sources and is a
  parameter. With \<^verbatim>\<open>result.error\<close> \<^verbatim>\<open>null\<close> the branch throws a \<open>TypeError\<close> where it
  first reads a property of it, and the handler's \<^verbatim>\<open>catch\<close> passes that to
  \<open>handleRequestError\<close>.
\<close>

definition nonstream_failure :: "(frame option \<Rightarrow> bool) \<Rightarrow> bool \<Rightarrow> frame option \<Rightarrow> pipeline \<Rightarrow> pipeline" where
  "nonstream_failure isUserAborted fake err p =
     (case err of
        None \<Rightarrow>
          p\<lparr>res := handleRequestError fake
                 (TypeError (null_read (if isUserAborted None then ''status'' else ''message'')))
                 (res p)\<rparr>
      | Some e \<Rightarrow>
          (let p1 = (if isUserAborted (Some e) then p
                     else if \<not> isConnectionResetError_obj (Some e)
                     then handleRequestFailureAndSwitch e p
                     else p)
           in p1\<lparr>res := sendErrorResponse (status_or_500 e) (message e) (res p1)\<rparr>))"

text \<open>
  The loop that reads the rest of the response from the queue; the outcomes of its
  awaited \<^verbatim>\<open>dequeue\<close> calls are a parameter, and the loop is still waiting when they
  run out.
\<close>

datatype collected = Body "string list" | ErrorFrame "string option" | Threw js_error | Waiting

fun collect :: "string list \<Rightarrow> frame outcome list \<Rightarrow> collected" where
  "collect chunks [] = Waiting"
| "collect chunks (Rejected e # os) = Threw e"
| "collect chunks (Resolved m # os) =
     (if ftype m = Some ''STREAM_END'' then Body chunks
      else if event_type m = Some ''error'' then ErrorFrame (message m)
      else (case data m of
              None \<Rightarrow> collect chunks os
            | Some d \<Rightarrow>
                if event_type m = Some ''chunk'' \<and> d \<noteq> [] then collect (chunks @ [d]) os
                else collect chunks os))"

datatype handler_end = Returned | Pending

definition nonstream_success ::
  "bool \<Rightarrow> bool \<Rightarrow> frame \<Rightarrow> frame outcome list \<Rightarrow> pipeline \<Rightarrow> pipeline \<times> handler_end" where
  "nonstream_success fake is_generative headerMessage rest p =
     (let p1 = (if is_generative \<and> failureCount p > 0 then p\<lparr>failureCount := 0\<rparr> else p)
      in case collect [] rest of
           Waiting \<Rightarrow> (p1, Pending)
         | Threw e \<Rightarrow> (p1\<lparr>res := handleRequestError fake e (res p1)\<rparr>, Returned)
         | ErrorFrame msg \<Rightarrow> (p1\<lparr>res := sendErrorResponse 500 msg (res p1)\<rparr>, Returned)
         | Body chunks \<Rightarrow>
             (p1\<lparr>res := (res p1)\<lparr>headersSent := True, writableEnded := True,
                    calls := calls (res p1) @
                      [SetResponseHeaders headerMessage, TypeJsonIfUnset, Send (concat chunks)]\<rparr>\<rparr>,
              Returned))"

definition handleNonStreamResponse ::
  "(frame option \<Rightarrow> bool) \<Rightarrow> bool \<Rightarrow> config \<Rightarrow> env \<Rightarrow> string \<Rightarrow> int \<Rightarrow> bool
     \<Rightarrow> frame outcome list \<Rightarrow> pipeline \<Rightarrow> (pipeline \<times> handler_end) \<times> action list" where
  "handleNonStreamResponse isUserAborted fake cfg ev requestId auth0 is_generative rest p =
     (case executeRequestWithRetries cfg ev requestId auth0 of
        (Failure err, acts) \<Rightarrow> ((nonstream_failure isUserAborted fake err p, Returned), acts)
      | (Success headerMessage q, acts) \<Rightarrow>
          (nonstream_success fake is_generative headerMessage rest p, acts))"

subsection \<open>Client disconnect\<close>

text \<open>
  Modelled from the spec: \<^verbatim>\<open>getAuthIndexForRequest\<close> and \<^verbatim>\<open>getConnectionByAuth\<close>, which the
  handler calls on the registry, are not defined in \<^verbatim>\<open>ConnectionRegistry.js\<close>. The spec
  names them as accessors of \<^verbatim>\<open>queues: requestId -> {queue, identity}\<close> and of
  \<^verbatim>\<open>connections: identity -> socket\<close>; they are parameters here, \<open>None\<close> standing for
  \<^verbatim>\<open>undefined\<close>. A sent frame is paired with the socket it is sent on.
\<close>

definition cancel_frame :: "string \<Rightarrow> frame" where
  "cancel_frame requestId =
     empty_frame\<lparr>event_type := Some ''cancel_request'', request_id := Some requestId\<rparr>"

definition cancelBrowserRequest ::
  "(int \<Rightarrow> nat option) \<Rightarrow> int \<Rightarrow> string \<Rightarrow> int option \<Rightarrow> (nat \<times> frame) list" where
  "cancelBrowserRequest getConnectionByAuth currentAuthIndex requestId authIndex =
     (case getConnectionByAuth (case authIndex of Some a \<Rightarrow> a | None \<Rightarrow> currentAuthIndex) of
        Some connection \<Rightarrow> [(connection, cancel_frame requestId)]
      | None \<Rightarrow> [])"

text \<open>
  The listener that \<open>setupClientDisconnectHandler\<close> puts on the \<^verbatim>\<open>close\<close> event of the
  response. It passes \<^verbatim>\<open>"client_disconnect"\<close> to \<open>removeMessageQueue\<close>, which has no
  such parameter.
\<close>

definition clientDisconnect ::
  "(string \<Rightarrow> int option) \<Rightarrow> (int \<Rightarrow> nat option) \<Rightarrow> int \<Rightarrow> string \<Rightarrow> pipeline \<Rightarrow> server
     \<Rightarrow> (nat \<times> frame) list \<times> pipeline \<times> server" where
  "clientDisconnect getAuthIndexForRequest getConnectionByAuth currentAuthIndex requestId p s =
     (if \<not> writableEnded (res p)
      then (cancelBrowserRequest getConnectionByAuth currentAuthIndex requestId
              (Some (case getAuthIndexForRequest requestId of
                       Some a \<Rightarrow> a
                     | None \<Rightarrow> currentAuthIndex)),
            p, removeMessageQueue requestId s)
      else ([], p, s))"

subsection \<open>The pseudo-stream handler: reading and splitting the response\<close>

text \<open>
  The loop that accumulates the body after the first frame. An error frame ends it
  with its message, which is sent as an error chunk before the body read so far is
  split.
\<close>

datatype accumulated = Acc_done string "string option option" | Acc_threw js_error | Acc_waiting

fun accumulate :: "string \<Rightarrow> frame outcome list \<Rightarrow> accumulated" where
  "accumulate fullData [] = Acc_waiting"
| "accumulate fullData (Rejected e # os) = Acc_threw e"
| "accumulate fullData (Resolved m # os) =
     (if ftype m = Some ''STREAM_END'' then Acc_done fullData None
      else if event_type m = Some ''error'' then Acc_done fullData (Some (message m))
      else accumulate (fullData @ (case data m of None \<Rightarrow> [] | Some d \<Rightarrow> d)) os)"

text \<open>\<^verbatim>\<open>p.thought === true\<close> for every part, in order; a \<^verbatim>\<open>null\<close> part throws.\<close>

fun thought_flags :: "json list \<Rightarrow> js_error + bool list" where
  "thought_flags [] = Inr []"
| "thought_flags (p # ps) =
     (case get_prop p ''thought'' of
        Inl e \<Rightarrow> Inl e
      | Inr v \<Rightarrow>
          (case thought_flags ps of
             Inl e \<Rightarrow> Inl e
           | Inr bs \<Rightarrow> Inr ((v = Some (JBool True)) # bs)))"

definition is_thought :: "json \<Rightarrow> bool" where
  "is_thought p \<longleftrightarrow> get_prop p ''thought'' = Inr (Some (JBool True))"

definition select_parts :: "bool \<Rightarrow> json list \<Rightarrow> bool list \<Rightarrow> json list" where
  "select_parts b ps bs = map fst (filter (\<lambda>pb. snd pb = b) (zip ps bs))"

definition content_literal :: "json list \<Rightarrow> json \<Rightarrow> json" where
  "content_literal ps role = JObj [(''parts'', JArr ps), (''role'', role)]"

definition thinkingResponse :: "json list \<Rightarrow> json \<Rightarrow> json" where
  "thinkingResponse ps role =
     JObj [(''candidates'', JArr [JObj [(''content'', content_literal ps role)]])]"

definition contentResponse :: "json list \<Rightarrow> json \<Rightarrow> json option \<Rightarrow> json option \<Rightarrow> json" where
  "contentResponse ps role finishReason usageMetadata =
     JObj (object_literal
       [(''candidates'', Some (JArr [JObj (object_literal
           [(''content'', Some (content_literal ps role)), (''finishReason'', finishReason)])])),
        (''usageMetadata'', usageMetadata)])"

text \<open>\<^verbatim>\<open>candidate.content.role || "model"\<close>\<close>

definition role_or_model :: "json option \<Rightarrow> json" where
  "role_or_model r = (case r of None \<Rightarrow> JStr ''model'' | Some v \<Rightarrow> if truthy r then v else JStr ''model'')"

text \<open>
  The writes of the branch that splits the parts \<open>ps\<close> of the candidate \<open>c\<close> with the
  content \<open>ct\<close> in the response \<open>g\<close>, or the exception of a \<^verbatim>\<open>null\<close> part (thrown before
  anything is written).
\<close>

definition split_writes :: "json \<Rightarrow> json \<Rightarrow> json \<Rightarrow> json list \<Rightarrow> js_error + res_call list" where
  "split_writes g c ct ps =
     (case thought_flags ps of
        Inl e \<Rightarrow> Inl e
      | Inr bs \<Rightarrow>
          (case (get_prop ct ''role'', get_prop c ''finishReason'', get_prop g ''usageMetadata'') of
             (Inr r, Inr finishReason, Inr usageMetadata) \<Rightarrow>
               (let thinkingParts = select_parts True ps bs;
                    contentParts = select_parts False ps bs;
                    role = role_or_model r
                in Inr ((if thinkingParts \<noteq> [] then [Write_data (thinkingResponse thinkingParts role)]
                         else []) @
                        (if contentParts \<noteq> []
                         then [Write_data (contentResponse contentParts role finishReason usageMetadata)]
                         else if truthy finishReason
                         then [Write_data (contentResponse [] role finishReason usageMetadata)]
                         else [])))
           | (Inl e, _, _) \<Rightarrow> Inl e
           | (_, Inl e, _) \<Rightarrow> Inl e
           | (_, _, Inl e) \<Rightarrow> Inl e))"

text \<open>
  The \<^verbatim>\<open>try\<close> block that parses and splits (\<open>parsed\<close> is the result of
  \<^verbatim>\<open>JSON.parse(fullData)\<close>, \<open>None\<close> when it throws), with its \<^verbatim>\<open>catch\<close>: the writes made.
\<close>

definition raw_fallback :: "string \<Rightarrow> res_call list" where
  "raw_fallback fullData = (if fullData \<noteq> [] then [Write_raw fullData] else [])"

definition parse_and_split :: "json option \<Rightarrow> string \<Rightarrow> res_call list" where
  "parse_and_split parsed fullData =
     (case parsed of
        None \<Rightarrow> raw_fallback fullData
      | Some g \<Rightarrow>
          (case get_prop g ''candidates'' of
             Inl e \<Rightarrow> raw_fallback fullData
           | Inr cs \<Rightarrow>
               (case optional_first cs of
                  None \<Rightarrow> raw_fallback fullData
                | Some c \<Rightarrow>
                    if \<not> truthy (Some c) then raw_fallback fullData
                    else (case get_prop c ''content'' of
                            Inl e \<Rightarrow> raw_fallback fullData
                          | Inr None \<Rightarrow> raw_fallback fullData
                          | Inr (Some ct) \<Rightarrow>
                              if \<not> truthy (Some ct) then raw_fallback fullData
                              else (case get_prop ct ''parts'' of
                                      Inr (Some (JArr ps)) \<Rightarrow>
                                        (case split_writes g c ct ps of
                                           Inl e \<Rightarrow> raw_fallback fullData
                                         | Inr ws \<Rightarrow> ws)
                                    | _ \<Rightarrow> raw_fallback fullData)))))"

text \<open>
  The handler from the point where the first frame has arrived: the headers of the
  event stream, the accumulation, the split, and the \<^verbatim>\<open>finally\<close> block. \<open>parse\<close> is
  \<^verbatim>\<open>JSON.parse\<close>.
\<close>

definition end_if_open :: "response \<Rightarrow> response" where
  "end_if_open r = (if writableEnded r then r else res_end r)"

definition stream_timeout_record :: "js_error \<Rightarrow> res_call" where
  "stream_timeout_record e =
     Write_data (JObj [(''error'', JObj
       [(''code'', JNum 504), (''message'', JStr (''Stream timeout: '' @ error_message e)),
        (''status'', JStr ''TIMEOUT'')])])"

definition pseudoStreamBody ::
  "(string \<Rightarrow> json option) \<Rightarrow> frame outcome list \<Rightarrow> response \<Rightarrow> response \<times> handler_end" where
  "pseudoStreamBody parse rest r =
     (let r1 = set_sse_headers r
      in case accumulate [] rest of
           Acc_waiting \<Rightarrow> (r1, Pending)
         | Acc_threw e \<Rightarrow>
             (end_if_open
                (if \<not> isConnectionResetError e \<and> isResponseWritable r1
                 then res_write (stream_timeout_record e) r1 else r1),
              Returned)
         | Acc_done fullData err \<Rightarrow>
             (end_if_open
                (foldl (\<lambda>r' w. res_write w r')
                   (case err of None \<Rightarrow> r1 | Some msg \<Rightarrow> sendErrorChunkToClient msg r1)
                   (parse_and_split (parse fullData) fullData)),
              Returned))"

subsection \<open>The image helper\<close>

text \<open>
  \<^verbatim>\<open>String(v)\<close> as a template literal converts a value; \<open>numstr\<close> is the conversion of
  numbers, a parameter.
\<close>

fun intercalate :: "string \<Rightarrow> string list \<Rightarrow> string" where
  "intercalate sep [] = []"
| "intercalate sep [x] = x"
| "intercalate sep (x # y # ys) = x @ sep @ intercalate sep (y # ys)"

fun js_to_string :: "(rat \<Rightarrow> string) \<Rightarrow> json \<Rightarrow> string" where
  "js_to_string numstr JNull = ''null''"
| "js_to_string numstr (JBool b) = (if b then ''true'' else ''false'')"
| "js_to_string numstr (JNum n) = numstr n"
| "js_to_string numstr (JStr s) = s"
| "js_to_string numstr (JArr xs) =
     intercalate '','' (map (\<lambda>x. if x = JNull then [] else js_to_string numstr x) xs)"
| "js_to_string numstr (JObj kvs) = ''[object Object]''"

definition template :: "(rat \<Rightarrow> string) \<Rightarrow> json option \<Rightarrow> string" where
  "template numstr v = (case v of None \<Rightarrow> ''undefined'' | Some x \<Rightarrow> js_to_string numstr x)"

text \<open>\<^verbatim>\<open>p.inlineData\<close> of a part that is not \<^verbatim>\<open>null\<close>.\<close>

definition inline_of :: "json \<Rightarrow> json option" where
  "inline_of p = (case get_prop p ''inlineData'' of Inr v \<Rightarrow> v | Inl e \<Rightarrow> None)"

text \<open>\<^verbatim>\<open>parts.findIndex(p => p.inlineData)\<close>: the index found, if any, or the exception.\<close>

fun findIndex_inlineData :: "json list \<Rightarrow> js_error + nat option" where
  "findIndex_inlineData [] = Inr None"
| "findIndex_inlineData (p # ps) =
     (case get_prop p ''inlineData'' of
        Inl e \<Rightarrow> Inl e
      | Inr v \<Rightarrow>
          if truthy v then Inr (Some 0)
          else (case findIndex_inlineData ps of
                  Inl e \<Rightarrow> Inl e
                | Inr None \<Rightarrow> Inr None
                | Inr (Some i) \<Rightarrow> Inr (Some (Suc i))))"

definition image_markdown :: "(rat \<Rightarrow> string) \<Rightarrow> json \<Rightarrow> json" where
  "image_markdown numstr img =
     JObj [(''text'', JStr (''![Generated Image](data:''
        @ template numstr (case get_prop img ''mimeType'' of Inr v \<Rightarrow> v | Inl e \<Rightarrow> None)
        @ '';base64,''
        @ template numstr (case get_prop img ''data'' of Inr v \<Rightarrow> v | Inl e \<Rightarrow> None)
        @ '')''))]"

text \<open>Assignments through the references the helper holds into the parsed body.\<close>

definition set_prop :: "string \<Rightarrow> json \<Rightarrow> json \<Rightarrow> json" where
  "set_prop name v obj = (case obj of JObj kvs \<Rightarrow> JObj (AList.update name v kvs) | _ \<Rightarrow> obj)"

definition set_first :: "json \<Rightarrow> json \<Rightarrow> json" where
  "set_first v arr =
     (case arr of
        JArr xs \<Rightarrow> (case xs of [] \<Rightarrow> arr | x # ys \<Rightarrow> JArr (v # ys))
      | JObj kvs \<Rightarrow> JObj (AList.update ''0'' v kvs)
      | _ \<Rightarrow> arr)"

text \<open>
  The search and the replacement in the array \<open>ps\<close> of parts: the new array if a
  part was replaced (the index found is in range, see \<open>findIndex_inlineData_less\<close>).
\<close>

definition replace_image_part :: "(rat \<Rightarrow> string) \<Rightarrow> json list \<Rightarrow> js_error + json list option" where
  "replace_image_part numstr ps =
     (case findIndex_inlineData ps of
        Inl e \<Rightarrow> Inl e
      | Inr None \<Rightarrow> Inr None
      | Inr (Some i) \<Rightarrow>
          (case get_prop (ps ! i) ''inlineData'' of
             Inr (Some img) \<Rightarrow> Inr (Some (ps[i := image_markdown numstr img]))
           | _ \<Rightarrow> Inr None))"

definition with_parts :: "json \<Rightarrow> json option \<Rightarrow> json \<Rightarrow> json \<Rightarrow> json list \<Rightarrow> json" where
  "with_parts parsedBody cs candidate content ps =
     set_prop ''candidates''
       (set_first (set_prop ''content'' (set_prop ''parts'' (JArr ps) content) candidate)
          (case cs of Some a \<Rightarrow> a | None \<Rightarrow> JNull))
       parsedBody"

text \<open>
  The body of the \<^verbatim>\<open>try\<close> block on the parsed body: the new body if a part was
  replaced, \<open>None\<close> if nothing was, or the exception.
\<close>

definition processImage_parts ::
  "(rat \<Rightarrow> string) \<Rightarrow> json \<Rightarrow> json option \<Rightarrow> json \<Rightarrow> json \<Rightarrow> js_error + json option" where
  "processImage_parts numstr parsedBody cs candidate content =
     (case get_prop content ''parts'' of
        Inl e \<Rightarrow> Inl e
      | Inr parts \<Rightarrow>
          if \<not> truthy parts then Inr None
          else (case parts of
                  Some (JArr ps) \<Rightarrow>
                    (case replace_image_part numstr ps of
                       Inl e \<Rightarrow> Inl e
                     | Inr None \<Rightarrow> Inr None
                     | Inr (Some ps') \<Rightarrow> Inr (Some (with_parts parsedBody cs candidate content ps')))
                | _ \<Rightarrow> Inl (TypeError ''candidate.content.parts.findIndex is not a function'')))"

definition processImage_json :: "(rat \<Rightarrow> string) \<Rightarrow> json \<Rightarrow> js_error + json option" where
  "processImage_json numstr parsedBody =
     (case get_prop parsedBody ''candidates'' of
        Inl e \<Rightarrow> Inl e
      | Inr cs \<Rightarrow>
          (case optional_first cs of
             None \<Rightarrow> Inr None
           | Some JNull \<Rightarrow> Inr None
           | Some candidate \<Rightarrow>
               (case get_prop candidate ''content'' of
                  Inl e \<Rightarrow> Inl e
                | Inr None \<Rightarrow> Inr None
                | Inr (Some JNull) \<Rightarrow> Inr None
                | Inr (Some content) \<Rightarrow> processImage_parts numstr parsedBody cs candidate content)))"

text \<open>\<open>processImageInResponse\<close>; \<open>parse\<close> and \<open>stringify\<close> are the two functions of \<^verbatim>\<open>JSON\<close>.\<close>

definition processImageInResponse ::
  "(string \<Rightarrow> json option) \<Rightarrow> (json \<Rightarrow> string) \<Rightarrow> (rat \<Rightarrow> string) \<Rightarrow> string \<Rightarrow> string" where
  "processImageInResponse parse stringify numstr fullBody =
     (case parse fullBody of
        None \<Rightarrow> fullBody
      | Some parsedBody \<Rightarrow>
          (case processImage_json numstr parsedBody of
             Inr (Some newBody) \<Rightarrow> stringify newBody
           | _ \<Rightarrow> fullBody))"

subsection \<open>Concrete inputs\<close>

text \<open>The default configuration of \<^verbatim>\<open>ConfigLoader\<close>, an error frame of the agent, and an
  environment in which every attempt is forwarded and every awaited dequeue settles the
  same way.\<close>

definition default_config :: config where
  "default_config = \<lparr>maxRetries = 3, retryDelay = 2000, immediateSwitchStatusCodes = Some [429, 503]\<rparr>"

definition error_frame :: "int \<Rightarrow> string \<Rightarrow> frame" where
  "error_frame st m = empty_frame\<lparr>event_type := Some ''error'', status := Some st, message := Some m\<rparr>"

definition chunk_frame :: "string \<Rightarrow> frame" where
  "chunk_frame d = empty_frame\<lparr>event_type := Some ''chunk'', data := Some d\<rparr>"

definition stream_end :: frame where
  "stream_end = empty_frame\<lparr>ftype := Some ''STREAM_END''\<rparr>"

definition const_env :: "frame outcome \<Rightarrow> env" where
  "const_env out = \<lparr>forward = (\<lambda>k. None), first = (\<lambda>k. out), authIndexAt = (\<lambda>k. 0)\<rparr>"

definition new_pipeline :: pipeline where
  "new_pipeline = \<lparr>failureCount = 0, switchCalls = [], res = new_response\<rparr>"

definition thought_part :: json where
  "thought_part = JObj [(''text'', JStr ''let me think''), (''thought'', JBool True)]"

definition text_part :: json where
  "text_part = JObj [(''text'', JStr ''hello'')]"

definition gemini_response :: "json list \<Rightarrow> (string \<times> json) list \<Rightarrow> (string \<times> json) list" where
  "gemini_response ps extra =
     [(''candidates'', JArr [JObj ([(''content'', JObj [(''parts'', JArr ps), (''role'', JStr ''model'')])] @ extra)]),
      (''usageMetadata'', JObj [(''totalTokenCount'', JNum 7)])]"

text \<open>
  A response body with an inline image, the value it parses to, and stand-ins for
  \<^verbatim>\<open>JSON.parse\<close> and \<^verbatim>\<open>JSON.stringify\<close> that agree with them on this body and on the
  rewritten one.
\<close>

definition image_body :: string where
  \<open>image_body = ''{"candidates":[{"content":{"parts":[{"inlineData":{"mimeType":"image/png","data":"AAAA"}}],"role":"model"}}]}''\<close>

definition image_part :: json where
  "image_part = JObj [(''inlineData'', JObj [(''mimeType'', JStr ''image/png''), (''data'', JStr ''AAAA'')])]"

definition image_json :: "json \<Rightarrow> json" where
  "image_json part =
     JObj [(''candidates'', JArr [JObj [(''content'', JObj [(''parts'', JArr [part]), (''role'', JStr ''model'')])]])]"

definition markdown_part :: json where
  "markdown_part = JObj [(''text'', JStr ''![Generated Image](data:image/png;base64,AAAA)'')]"

definition markdown_body :: string where
  \<open>markdown_body = ''{"candidates":[{"content":{"parts":[{"text":"![Generated Image](data:image/png;base64,AAAA)"}],"role":"model"}}]}''\<close>

definition image_parse :: "string \<Rightarrow> json option" where
  "image_parse s = (if s = image_body then Some (image_json image_part) else None)"

definition image_stringify :: "json \<Rightarrow> string" where
  "image_stringify v = (if v = image_json markdown_part then markdown_body else image_body)"

definition headers_frame :: frame where
  "headers_frame = empty_frame\<lparr>event_type := Some ''response_headers'', status := Some 200,
     headers := Some [(''content-type'', ''application/json'')]\<rparr>"

section \<open>Redirect headers: the agent (scripts/client/build.js) and the server\<close>

text \<open>
  \<^verbatim>\<open>URL\<close> and \<^verbatim>\<open>URLSearchParams\<close> belong to the platform, not to the repository, and are
  parameters: \<open>parseURL s\<close> is \<^verbatim>\<open>new URL(s)\<close> (\<open>None\<close> when it throws), \<open>parseWithBase s\<close>
  is \<^verbatim>\<open>new URL(s, "http://dummy")\<close> with the entries of its \<^verbatim>\<open>searchParams\<close>, and
  \<open>paramsToString\<close> is \<^verbatim>\<open>URLSearchParams.prototype.toString\<close>. Of a parsed URL the code
  reads \<^verbatim>\<open>host\<close>, \<^verbatim>\<open>pathname\<close> and \<^verbatim>\<open>search\<close>.
\<close>

record parsed_url =
  host :: string
  pathname :: string
  search :: string

record urllib =
  parseURL :: "string \<Rightarrow> parsed_url option"
  parseWithBase :: "string \<Rightarrow> (parsed_url \<times> (string \<times> string) list) option"
  paramsToString :: "(string \<times> string) list \<Rightarrow> string"

definition is_redirect_header :: "string \<Rightarrow> bool" where
  "is_redirect_header k \<longleftrightarrow>
     toLowerCase k = ''location'' \<or> toLowerCase k = ''x-goog-upload-url''"

text \<open>
  \<open>transmitHeader\<close>: what \<open>transmitHeaders\<close> of the agent stores for one response
  header. \<open>locProtocol\<close> and \<open>locHost\<close> are \<^verbatim>\<open>location.protocol\<close> and \<^verbatim>\<open>location.host\<close> of
  the page, \<open>proxyHost\<close> is \<^verbatim>\<open>requestSpec.headers?.host\<close>.
\<close>

definition transmitHeader ::
  "urllib \<Rightarrow> string \<Rightarrow> string \<Rightarrow> string option \<Rightarrow> string \<times> string \<Rightarrow> string \<times> string" where
  "transmitHeader lib locProtocol locHost proxyHost kv =
     (if is_redirect_header (fst kv) \<and> str_includes (snd kv) ''googleapis.com''
      then (case parseURL lib (snd kv) of
              None \<Rightarrow> kv
            | Some urlObj \<Rightarrow>
                (fst kv,
                 locProtocol @ ''//''
                   @ (case proxyHost of None \<Rightarrow> locHost | Some h \<Rightarrow> if h = [] then locHost else h)
                   @ pathname urlObj
                   @ search urlObj @ (if search urlObj \<noteq> [] then ''&'' else ''?'')
                   @ ''__proxy_host__='' @ host urlObj))
      else kv)"

definition transmitHeaders ::
  "urllib \<Rightarrow> string \<Rightarrow> string \<Rightarrow> string option \<Rightarrow> (string \<times> string) list \<Rightarrow> (string \<times> string) list" where
  "transmitHeaders lib locProtocol locHost proxyHost hs =
     map (transmitHeader lib locProtocol locHost proxyHost) hs"

text \<open>
  \<open>relayHeader\<close>: what \<open>setResponseHeaders\<close> of the server sets for one header of the
  \<^verbatim>\<open>response_headers\<close> frame, \<open>None\<close> for a header it drops. \<open>reqHost\<close> is
  \<^verbatim>\<open>req.headers.host\<close>, \<open>secure\<close> is
  \<^verbatim>\<open>req.secure || req.get("X-Forwarded-Proto") === "https"\<close>, and \<open>cfgHost\<close> and \<open>cfgPort\<close>
  are the configured host and the port as text; \<open>authority\<close> is \<^verbatim>\<open>newAuthority\<close>.
\<close>

definition authority :: "string option \<Rightarrow> string \<Rightarrow> string \<Rightarrow> string" where
  "authority reqHost cfgHost cfgPort =
     (case reqHost of
        None \<Rightarrow> (if cfgHost = ''0.0.0.0'' then ''127.0.0.1'' else cfgHost) @ '':'' @ cfgPort
      | Some h \<Rightarrow>
          if h = [] then (if cfgHost = ''0.0.0.0'' then ''127.0.0.1'' else cfgHost) @ '':'' @ cfgPort
          else h)"

definition forbiddenHeaders :: "string list" where
  "forbiddenHeaders =
     [''access-control-allow-origin'', ''access-control-allow-methods'',
      ''access-control-allow-headers'']"

definition relayHeader ::
  "urllib \<Rightarrow> string option \<Rightarrow> bool \<Rightarrow> string \<Rightarrow> string \<Rightarrow> string \<times> string
     \<Rightarrow> (string \<times> string) option" where
  "relayHeader lib reqHost secure cfgHost cfgPort nv =
     (if toLowerCase (fst nv) \<in> set forbiddenHeaders then None
      else if toLowerCase (fst nv) = ''content-length'' then None
      else if (toLowerCase (fst nv) = ''x-goog-upload-url'' \<or> toLowerCase (fst nv) = ''location'')
              \<and> str_includes (snd nv) ''googleapis.com''
      then (case parseURL lib (snd nv) of
              None \<Rightarrow> Some nv
            | Some urlObj \<Rightarrow>
                Some (fst nv,
                  (if secure then ''https'' else ''http'') @ ''://''
                    @ authority reqHost cfgHost cfgPort
                    @ pathname urlObj @ search urlObj))
      else Some nv)"

definition setResponseHeaders ::
  "urllib \<Rightarrow> string option \<Rightarrow> bool \<Rightarrow> string \<Rightarrow> string \<Rightarrow> frame \<Rightarrow> int \<times> (string \<times> string) list" where
  "setResponseHeaders lib reqHost secure cfgHost cfgPort headerMessage =
     ((case status headerMessage of None \<Rightarrow> 200 | Some st \<Rightarrow> if st = 0 then 200 else st),
      List.map_filter (relayHeader lib reqHost secure cfgHost cfgPort)
        (case headers headerMessage of None \<Rightarrow> [] | Some hs \<Rightarrow> hs))"

subsection \<open>The target URL of the agent\<close>

















subsection \<open>A small URL library\<close>























section \<open>The message queue: order of delivery and close reasons\<close>















lemma apply_clear_fresh [simp]: "fresh (apply_effect w (ClearTimeout x)) = fresh w"
  by (cases x) auto

lemma apply_clear_settled [simp]: "settled (apply_effect w (ClearTimeout x)) = settled w"
  by (cases x) auto

lemma apply_clear_queue [simp]: "queue (apply_effect w (ClearTimeout x)) = queue w"
  by (cases x) auto

lemma reject_all_queue [simp]:
  "queue (foldl apply_effect w (reject_all reason rs)) = queue w"
  by (induction rs arbitrary: w) (auto split: option.splits)

lemma reject_all_fresh [simp]:
  "fresh (foldl apply_effect w (reject_all reason rs)) = fresh w"
  by (induction rs arbitrary: w) auto



lemma receivers_rejected [simp]: "receivers (map (\<lambda>r. (f r, Rejected (g r))) rs) = []"
  by (induction rs) auto

lemma delivered_rejected [simp]: "delivered (map (\<lambda>r. (f r, Rejected (g r))) rs) = []"
  by (induction rs) auto

















text \<open>
  The empty string, which no caller passes as a reason, is the one value for which the
  two paths differ: a dequeuer parked at \<^verbatim>\<open>close("")\<close> is rejected with the empty reason,
  and a dequeue after it with the default reason \<^verbatim>\<open>unknown\<close>.
\<close>

lemma close_empty_reason_default:
  "settled (run [Dequeue None, Close (Some ''''), Dequeue None :: frame op]) =
     [(0, Rejected (QueueClosedError ''Queue is closed (reason: )'' '''')),
      (1, Rejected (QueueClosedError ''Queue is closed (reason: unknown)'' ''unknown''))]"
  by (simp add: run_def init_world_def new_MessageQueue_def perform_def close_def dequeue_def
      current_reason_def reason_arg_def closed_message_def)

text \<open>
  The earlier revision of the class in the same file, which the later one replaces,
  had no \<^verbatim>\<open>closeReason\<close>: its \<^verbatim>\<open>dequeue\<close> on a closed queue throws the default error.
\<close>

lemma dequeue_rev1_closed:
  "closed q \<Longrightarrow> snd (dequeue_rev1 t n q) = [Reject n (QueueClosedError ''Queue is closed'' ''unknown'')]"
  by (simp add: dequeue_rev1_def)

section \<open>The connection registry\<close>

lemma on_queue_close_closed: "closed (heap (on_queue a (close r) s) a)"
  by (simp add: on_queue_def close_def)

lemma on_queue_close_keeps: "closed (heap s b) \<Longrightarrow> closed (heap (on_queue a (close r) s) b)"
  by (simp add: on_queue_def close_def)

lemma close_list_keeps:
  "closed (heap s b) \<Longrightarrow>
   closed (heap (foldl (\<lambda>s' kv. on_queue (snd kv) (close None) s') s kvs) b)"
  by (induction kvs arbitrary: s) (simp_all add: on_queue_close_keeps)

lemma close_list_closed:
  "(k, a) \<in> set kvs \<Longrightarrow>
   closed (heap (foldl (\<lambda>s' kv. on_queue (snd kv) (close None) s') s kvs) a)"
proof (induction kvs arbitrary: s)
  case Nil
  then show ?case by simp
next
  case (Cons kv kvs)
  show ?case
  proof (cases "(k, a) = kv")
    case True
    then show ?thesis
      using close_list_keeps [OF on_queue_close_closed] by force
  next
    case False
    with Cons show ?thesis by simp
  qed
qed

lemma on_queue_fields [simp]:
  "reg (on_queue a f s) = reg s" "armed (on_queue a f s) = armed s"
  "lostCalls (on_queue a f s) = lostCalls s" "nextTimer (on_queue a f s) = nextTimer s"
  "awaiting (on_queue a f s) = awaiting s" "emitted (on_queue a f s) = emitted s"
  "nextAddr (on_queue a f s) = nextAddr s"
  by (simp_all add: on_queue_def)

lemma close_list_fields [simp]:
  "reg (foldl (\<lambda>s' kv. on_queue (snd kv) f s') s kvs) = reg s"
  "armed (foldl (\<lambda>s' kv. on_queue (snd kv) f s') s kvs) = armed s"
  "lostCalls (foldl (\<lambda>s' kv. on_queue (snd kv) f s') s kvs) = lostCalls s"
  "nextTimer (foldl (\<lambda>s' kv. on_queue (snd kv) f s') s kvs) = nextTimer s"
  "awaiting (foldl (\<lambda>s' kv. on_queue (snd kv) f s') s kvs) = awaiting s"
  "emitted (foldl (\<lambda>s' kv. on_queue (snd kv) f s') s kvs) = emitted s"
  "nextAddr (foldl (\<lambda>s' kv. on_queue (snd kv) f s') s kvs) = nextAddr s"
  by (induction kvs arbitrary: s) simp_all

lemma close_all_queues [simp]: "messageQueues (reg (close_all s)) = []"
  by (simp add: close_all_def)

lemma close_all_fields [simp]:
  "armed (close_all s) = armed s" "lostCalls (close_all s) = lostCalls s"
  "nextTimer (close_all s) = nextTimer s" "awaiting (close_all s) = awaiting s"
  "emitted (close_all s) = emitted s"
  "hasCallback (reg (close_all s)) = hasCallback (reg s)"
  "isReconnecting (reg (close_all s)) = isReconnecting (reg s)"
  "reconnectGraceTimer (reg (close_all s)) = reconnectGraceTimer (reg s)"
  "connections (reg (close_all s)) = connections (reg s)"
  by (simp_all add: close_all_def)

lemma close_all_closed:
  "(k, a) \<in> set (messageQueues (reg s)) \<Longrightarrow> closed (heap (close_all s) a)"
  by (simp add: close_all_def close_list_closed)

text \<open>
  Claim C2, as amended. When a socket closes, a grace timer is armed and the registry
  keeps its handle; no queue is closed at that moment and the callback is not invoked.
  In every state in which the registry holds the handle of a grace timer \<open>t\<close>: when a
  socket is added, that timer is cancelled (it can no longer fire, so it never invokes
  \<^verbatim>\<open>onConnectionLostCallback\<close>) and the handle is cleared, and every registered queue is
  closed and dropped from the registry. In every state in which a grace timer \<open>t\<close> is
  armed: when it fires, every registered queue is closed and dropped, and the callback
  is invoked once if one was given and no earlier invocation is still in progress, and
  not at all otherwise; the timer does not fire a second time.
\<close>

theorem grace_window:
  "(let s' = removeConnection ws s
    in reconnectGraceTimer (reg s') = Some (nextTimer s) \<and> nextTimer s \<in> set (armed s') \<and>
       messageQueues (reg s') = messageQueues (reg s) \<and> heap s' = heap s \<and>
       lostCalls s' = lostCalls s) \<and>
   (reconnectGraceTimer (reg s) = Some t \<longrightarrow>
     (let s' = addConnection ws2 s
      in t \<notin> set (armed s') \<and> grace_timer_fires t s' = s' \<and> lostCalls s' = lostCalls s \<and>
         reconnectGraceTimer (reg s') = None \<and>
         messageQueues (reg s') = [] \<and>
         (\<forall>(k, a) \<in> set (messageQueues (reg s)). closed (heap s' a)))) \<and>
   (t \<in> set (armed s) \<longrightarrow>
     (let s' = grace_timer_fires t s
      in t \<notin> set (armed s') \<and> grace_timer_fires t s' = s' \<and>
         lostCalls s' =
           lostCalls s + (if hasCallback (reg s) \<and> \<not> isReconnecting (reg s) then 1 else 0) \<and>
         messageQueues (reg s') = [] \<and>
         (\<forall>(k, a) \<in> set (messageQueues (reg s)). closed (heap s' a))))"
proof (intro conjI impI)
  show "let s' = removeConnection ws s
    in reconnectGraceTimer (reg s') = Some (nextTimer s) \<and> nextTimer s \<in> set (armed s') \<and>
       messageQueues (reg s') = messageQueues (reg s) \<and> heap s' = heap s \<and>
       lostCalls s' = lostCalls s"
    by (simp add: Let_def removeConnection_def emit_def split: option.splits)
next
  assume "reconnectGraceTimer (reg s) = Some t"
  then show "let s' = addConnection ws2 s
      in t \<notin> set (armed s') \<and> grace_timer_fires t s' = s' \<and> lostCalls s' = lostCalls s \<and>
         reconnectGraceTimer (reg s') = None \<and>
         messageQueues (reg s') = [] \<and>
         (\<forall>(k, a) \<in> set (messageQueues (reg s)). closed (heap s' a))"
    apply (simp add: Let_def addConnection_def grace_timer_fires_def emit_def)
    apply (auto simp: close_all_closed)
    done
next
  assume "t \<in> set (armed s)"
  then show "let s' = grace_timer_fires t s
      in t \<notin> set (armed s') \<and> grace_timer_fires t s' = s' \<and>
         lostCalls s' =
           lostCalls s + (if hasCallback (reg s) \<and> \<not> isReconnecting (reg s) then 1 else 0) \<and>
         messageQueues (reg s') = [] \<and>
         (\<forall>(k, a) \<in> set (messageQueues (reg s)). closed (heap s' a))"
    apply (simp add: Let_def grace_timer_fires_def grace_callback_def grace_end_def emit_def)
    apply (auto simp: close_all_closed)
    done
qed

lemmas server_eval =
  init_server_def new_ConnectionRegistry_def new_MessageQueue_def createMessageQueue_def
  removeConnection_def addConnection_def close_all_def on_queue_def close_def reason_arg_def
  emit_def grace_timer_fires_def grace_callback_def grace_end_def Let_def dequeue_def
  removeMessageQueue_def current_reason_def closed_message_def callback_settled_def

theorem grace_window_witness:
  "reconnectGraceTimer (reg (removeConnection 1 (snd (createMessageQueue ''r1'' (init_server True))))) = Some 0 \<and>
   0 \<in> set (armed (removeConnection 1 (snd (createMessageQueue ''r1'' (init_server True))))) \<and>
   (''r1'', 0) \<in> set (messageQueues (reg (removeConnection 1 (snd (createMessageQueue ''r1'' (init_server True)))))) \<and>
   \<not> closed (heap (removeConnection 1 (snd (createMessageQueue ''r1'' (init_server True)))) 0) \<and>
   closed (heap (addConnection 2 (removeConnection 1 (snd (createMessageQueue ''r1'' (init_server True))))) 0) \<and>
   0 \<notin> set (armed (addConnection 2 (removeConnection 1 (snd (createMessageQueue ''r1'' (init_server True)))))) \<and>
   lostCalls (addConnection 2 (removeConnection 1 (snd (createMessageQueue ''r1'' (init_server True))))) = 0 \<and>
   closed (heap (grace_timer_fires 0 (removeConnection 1 (snd (createMessageQueue ''r1'' (init_server True))))) 0) \<and>
   lostCalls (grace_timer_fires 0 (removeConnection 1 (snd (createMessageQueue ''r1'' (init_server True))))) = 1"
proof -
  let ?base = "snd (createMessageQueue ''r1'' (init_server True))"
  let ?s = "removeConnection 1 ?base"
  have n: "nextTimer ?base = 0" "messageQueues (reg ?base) = [(''r1'', 0)]" "lostCalls ?base = 0"
    "\<not> closed (heap ?base 0)"
    by (simp_all add: server_eval)
  note r = grace_window [where s = ?base and ws = 1 and t = 7 and ?ws2.0 = 2]
  from r n have h: "reconnectGraceTimer (reg ?s) = Some 0" and a: "0 \<in> set (armed ?s)"
    and m: "messageQueues (reg ?s) = [(''r1'', 0)]" and l: "lostCalls ?s = 0"
    and o: "\<not> closed (heap ?s 0)"
    by (simp_all add: Let_def)
  have c: "hasCallback (reg ?s) \<and> \<not> isReconnecting (reg ?s)"
    by (simp add: server_eval)
  from grace_window [where s = ?s and ws = 1 and t = 0 and ?ws2.0 = 2] h a m l o c show ?thesis
    by (simp add: Let_def)
qed

text \<open>
  Claim C2 as stated fails: a socket that is re-added while the grace timer is pending
  closes the registered queue \<^verbatim>\<open>r1\<close> and empties the registry.
\<close>

theorem grace_reconnect_counterexample:
  "map_of (messageQueues (reg (removeConnection 1 (snd (createMessageQueue ''r1'' (init_server True)))))) ''r1'' = Some 0 \<and>
   \<not> closed (heap (removeConnection 1 (snd (createMessageQueue ''r1'' (init_server True)))) 0) \<and>
   closed (heap (addConnection 2 (removeConnection 1 (snd (createMessageQueue ''r1'' (init_server True))))) 0) \<and>
   messageQueues (reg (addConnection 2 (removeConnection 1 (snd (createMessageQueue ''r1'' (init_server True)))))) = []"
  by (simp add: server_eval)

text \<open>
  The statement above speaks of the handle the registry holds, not of every armed
  timer. The callback of a grace timer clears the handle at its end, after its
  \<^verbatim>\<open>await\<close>; when a second socket closes during that wait, the handle it stored is
  cleared with it while its timer stays armed. A socket added then cancels nothing, and
  the timer later closes the queue \<^verbatim>\<open>r1\<close> created in between and invokes the callback a
  second time.
\<close>

lemma grace_handle_cleared_early:
  "(let s1 = callback_settled (removeConnection 2 (grace_timer_fires 0 (removeConnection 1 (init_server True))));
        s2 = addConnection 3 s1;
        s3 = grace_timer_fires 1 (snd (createMessageQueue ''r1'' s2))
    in reconnectGraceTimer (reg s1) = None \<and> armed s1 = [1] \<and> armed s2 = [1] \<and>
       connections (reg s2) = [3] \<and> closed (heap s3 0) \<and> lostCalls s3 = 2)"
  by (simp add: server_eval)

text \<open>
  Claim C1 at a concrete input: a queue is created for \<^verbatim>\<open>r1\<close>, the pipeline parks a
  \<^verbatim>\<open>dequeue\<close> on it, and a queue is created for \<^verbatim>\<open>r1\<close> again. The registry then holds
  one queue for \<^verbatim>\<open>r1\<close>, the new one, but the prior queue is still open and its waiter
  is still parked: nothing was rejected, the only effect so far is the timer of the
  parked call.
\<close>

theorem createMessageQueue_keeps_prior_queue_open:
  "fst (createMessageQueue ''r1'' (init_server True)) = 0 \<and>
   (let s = snd (createMessageQueue ''r1''
                  (on_queue 0 (dequeue None 0) (snd (createMessageQueue ''r1'' (init_server True)))))
    in messageQueues (reg s) = [(''r1'', 1)] \<and>
       \<not> closed (heap s 0) \<and>
       waitingResolvers (heap s 0) = [\<lparr>rid = 0, timeoutId = Some 0\<rparr>] \<and>
       effects s = [(0, SetTimeout 0 300000)])"
  by (simp add: server_eval)

text \<open>The part of claim C1 that holds: the registry never holds two queues for one id.\<close>

lemma createMessageQueue_distinct:
  "distinct (map fst (messageQueues (reg s))) \<Longrightarrow>
   distinct (map fst (messageQueues (reg (snd (createMessageQueue requestId s)))))"
  by (simp add: createMessageQueue_def distinct_update)

lemma createMessageQueue_lookup:
  "map_of (messageQueues (reg (snd (createMessageQueue requestId s)))) requestId = Some (nextAddr s)"
  by (simp add: createMessageQueue_def update_conv')

section \<open>Client disconnect\<close>

text \<open>
  What holds of the listener in every state: while the response has not ended it sends
  one \<^verbatim>\<open>cancel_request\<close> frame on the socket of the identity that the registry binds to
  the request id, if the registry knows the request and that identity has a socket; it
  leaves the pipeline state, and with it the failure counter, as it is; and the queue
  of the request is closed and dropped from the registry.
\<close>

lemma clientDisconnect_cancels:
  assumes "\<not> writableEnded (res p)"
    and "getAuthIndexForRequest requestId = Some a"
    and "getConnectionByAuth a = Some ws"
  shows "fst (clientDisconnect getAuthIndexForRequest getConnectionByAuth cur requestId p s) =
           [(ws, cancel_frame requestId)]"
    and "fst (snd (clientDisconnect getAuthIndexForRequest getConnectionByAuth cur requestId p s)) = p"
  using assms by (simp_all add: clientDisconnect_def cancelBrowserRequest_def)

lemma removeMessageQueue_closes:
  assumes "map_of (messageQueues (reg s)) requestId = Some a"
  shows "closed (heap (removeMessageQueue requestId s) a)"
    and "closeReason (heap (removeMessageQueue requestId s) a) = Some ''unknown''"
    and "map_of (messageQueues (reg (removeMessageQueue requestId s))) requestId = None"
  using assms
  by (simp_all add: removeMessageQueue_def on_queue_def close_def reason_arg_def delete_conv')

text \<open>
  Claim C3 at a concrete input. The request \<^verbatim>\<open>r1\<close> is bound to identity 1, whose socket
  is 7, while the switcher has moved on to identity 2; the pipeline is parked on the
  queue of \<^verbatim>\<open>r1\<close>; the client closes the connection. The cancel frame goes to socket 7
  and the failure counter is untouched, but the queue is closed with the reason
  \<^verbatim>\<open>unknown\<close> and its waiter is released with that reason, not \<^verbatim>\<open>client_disconnect\<close>.
\<close>

theorem client_disconnect_reason_dropped:
  "(let s0 = on_queue 0 (dequeue None 0) (snd (createMessageQueue ''r1'' (init_server True)));
        r = clientDisconnect (\<lambda>i. if i = ''r1'' then Some 1 else None)
              (\<lambda>a. if a = 1 then Some 7 else None) 2 ''r1'' new_pipeline s0
    in fst r = [(7, cancel_frame ''r1'')] \<and>
       failureCount (fst (snd r)) = failureCount new_pipeline \<and>
       messageQueues (reg (snd (snd r))) = [] \<and>
       closed (heap (snd (snd r)) 0) \<and>
       closeReason (heap (snd (snd r)) 0) = Some ''unknown'' \<and>
       effects (snd (snd r)) =
         [(0, SetTimeout 0 300000), (0, ClearTimeout (Some 0)),
          (0, Reject 0 (QueueClosedError ''Queue is closed (reason: unknown)'' ''unknown''))])"
  by (simp add: clientDisconnect_def cancelBrowserRequest_def new_pipeline_def new_response_def
      server_eval AList.delete_eq)

section \<open>The retry loop\<close>

declare retry_loop.simps [simp del]

lemma retry_loop_break:
  "attempt \<le> maxRetries cfg \<Longrightarrow> run_attempt cfg ev reqId attempt cq a = Done r acts' \<Longrightarrow>
   retry_loop cfg ev reqId attempt cq a le acts = (r, acts @ acts')"
  by (subst retry_loop.simps) simp

lemma retry_loop_again:
  "attempt \<le> maxRetries cfg \<Longrightarrow> run_attempt cfg ev reqId attempt cq a = Again acts' auth err \<Longrightarrow>
   retry_loop cfg ev reqId attempt cq a le acts =
     retry_loop cfg ev reqId (attempt + 1) (Suc cq) auth err (acts @ acts')"
  by (subst retry_loop.simps) simp

lemma retry_loop_exit:
  "\<not> attempt \<le> maxRetries cfg \<Longrightarrow> retry_loop cfg ev reqId attempt cq a le acts = (Failure le, acts)"
  by (subst retry_loop.simps) simp

text \<open>
  Claim C7, as amended. In an attempt of the retry loop whose first dequeued frame is an
  error frame \<open>m\<close>: if a string of \<open>m\<close> contains \<^verbatim>\<open>Queue closed\<close>, \<^verbatim>\<open>Queue is closed\<close> or
  \<^verbatim>\<open>Connection lost\<close>, the loop ends at once with the connection-lost error, whose
  status is 503, whatever the status of \<open>m\<close>; if the status of \<open>m\<close> is among the
  configured \<^verbatim>\<open>immediateSwitchStatusCodes\<close>, the loop ends at once with a failure and
  makes no further attempt, whatever the number of retries left; if it is not, and no
  string of \<open>m\<close> contains one of the three texts, the loop cancels the request,
  replaces the queue, sleeps and makes the next attempt, unless this was attempt
  \<^verbatim>\<open>maxRetries\<close>, where it ends with the error of the frame.
\<close>

theorem immediate_switch_breaks:
  assumes "attempt \<le> maxRetries cfg"
    and "forward ev attempt = None"
    and "first ev attempt = Resolved m"
    and "event_type m = Some ''error''"
  shows "(json_text_resets m \<longrightarrow>
            retry_loop cfg ev reqId attempt cq a le acts =
              (Failure (Some connection_lost_error), acts @ [ForwardRequest attempt]) \<and>
            status connection_lost_error = Some 503) \<and>
         (is_immediate cfg m \<longrightarrow>
            retry_loop cfg ev reqId attempt cq a le acts =
              (Failure (Some (if json_text_resets m then connection_lost_error else m)),
               acts @ [ForwardRequest attempt])) \<and>
         (\<not> is_immediate cfg m \<and> \<not> json_text_resets m \<and> attempt < maxRetries cfg \<longrightarrow>
            retry_loop cfg ev reqId attempt cq a le acts =
              retry_loop cfg ev reqId (attempt + 1) (Suc cq) (authIndexAt ev attempt) (Some m)
                (acts @ [ForwardRequest attempt, CancelBrowserRequest reqId a,
                         CloseQueue cq ''retry_creating_new_queue'',
                         CreateMessageQueue reqId (authIndexAt ev attempt), Sleep (retryDelay cfg)])) \<and>
         (\<not> is_immediate cfg m \<and> \<not> json_text_resets m \<and> attempt = maxRetries cfg \<longrightarrow>
            retry_loop cfg ev reqId attempt cq a le acts =
              (Failure (Some m), acts @ [ForwardRequest attempt]))"
proof -
  have t: "try_attempt ev attempt = (Inl (Structured m), [ForwardRequest attempt])"
    using assms by (simp add: try_attempt_def)
  show ?thesis
  proof (intro conjI impI)
    assume "json_text_resets m"
    then have "run_attempt cfg ev reqId attempt cq a =
        Done (Failure (Some connection_lost_error)) [ForwardRequest attempt]"
      by (simp add: run_attempt_def t isConnectionResetError_caught_def)
    with assms(1) show "retry_loop cfg ev reqId attempt cq a le acts =
        (Failure (Some connection_lost_error), acts @ [ForwardRequest attempt])"
      by (rule retry_loop_break)
  next
    show "status connection_lost_error = Some 503"
      by (simp add: connection_lost_error_def empty_frame_def)
  next
    assume "is_immediate cfg m"
    then have "run_attempt cfg ev reqId attempt cq a =
        Done (Failure (Some (if json_text_resets m then connection_lost_error else m))) [ForwardRequest attempt]"
      by (simp add: run_attempt_def t isConnectionResetError_caught_def errorPayload_def)
    with assms(1) show "retry_loop cfg ev reqId attempt cq a le acts =
        (Failure (Some (if json_text_resets m then connection_lost_error else m)), acts @ [ForwardRequest attempt])"
      by (rule retry_loop_break)
  next
    assume h: "\<not> is_immediate cfg m \<and> \<not> json_text_resets m \<and> attempt < maxRetries cfg"
    then have "run_attempt cfg ev reqId attempt cq a =
        Again ([ForwardRequest attempt] @ [CancelBrowserRequest reqId a,
                 CloseQueue cq ''retry_creating_new_queue'',
                 CreateMessageQueue reqId (authIndexAt ev attempt), Sleep (retryDelay cfg)])
              (authIndexAt ev attempt) (Some m)"
      by (simp add: run_attempt_def t isConnectionResetError_caught_def errorPayload_def)
    with assms(1) show "retry_loop cfg ev reqId attempt cq a le acts =
        retry_loop cfg ev reqId (attempt + 1) (Suc cq) (authIndexAt ev attempt) (Some m)
          (acts @ [ForwardRequest attempt, CancelBrowserRequest reqId a,
                   CloseQueue cq ''retry_creating_new_queue'',
                   CreateMessageQueue reqId (authIndexAt ev attempt), Sleep (retryDelay cfg)])"
      by (simp add: retry_loop_again)
  next
    assume h: "\<not> is_immediate cfg m \<and> \<not> json_text_resets m \<and> attempt = maxRetries cfg"
    with t have "run_attempt cfg ev reqId attempt cq a = Done (Failure (Some m)) [ForwardRequest attempt]"
      by (simp add: run_attempt_def isConnectionResetError_caught_def errorPayload_def)
    with assms(1) show "retry_loop cfg ev reqId attempt cq a le acts =
        (Failure (Some m), acts @ [ForwardRequest attempt])"
      by (rule retry_loop_break)
  qed
qed

lemmas retry_eval =
  executeRequestWithRetries_def retry_loop.simps run_attempt_def try_attempt_def
  isConnectionResetError_def isConnectionResetError_caught_def errorPayload_def is_immediate_def
  json_text_resets_def
  frame_strings_def reset_text_def str_includes_def sublist_code
  default_config_def error_frame_def const_env_def empty_frame_def connection_lost_error_def
  timeout_frame_def error_message_def

theorem immediate_switch_breaks_witness:
  "executeRequestWithRetries default_config
     (const_env (Resolved (error_frame 429 ''quota''))) ''r1'' 0 =
     (Failure (Some (error_frame 429 ''quota'')), [ForwardRequest 1]) \<and>
   retry_loop default_config (const_env (Resolved (error_frame 500 ''boom''))) ''r1'' 1 0 0 None [] =
     retry_loop default_config (const_env (Resolved (error_frame 500 ''boom''))) ''r1'' 2 1 0
       (Some (error_frame 500 ''boom''))
       [ForwardRequest 1, CancelBrowserRequest ''r1'' 0, CloseQueue 0 ''retry_creating_new_queue'',
        CreateMessageQueue ''r1'' 0, Sleep 2000] \<and>
   retry_loop default_config (const_env (Resolved (error_frame 500 ''boom''))) ''r1'' 3 2 0 None [] =
     (Failure (Some (error_frame 500 ''boom'')), [ForwardRequest 3]) \<and>
   retry_loop default_config (const_env (Resolved (error_frame 400 ''Queue is closed''))) ''r1'' 2 1 0 None [] =
     (Failure (Some connection_lost_error), [ForwardRequest 2])"
proof -
  let ?e3 = "const_env (Resolved (error_frame 400 ''Queue is closed''))"
  have r3: "json_text_resets (error_frame 400 ''Queue is closed'')"
    by (simp add: retry_eval)
  have d: "retry_loop default_config ?e3 ''r1'' 2 1 0 None [] =
      (Failure (Some connection_lost_error), [ForwardRequest 2])"
    using immediate_switch_breaks [of 2 default_config ?e3 "error_frame 400 ''Queue is closed''" "''r1''" 1 0 None "[]"]
      r3
    by (simp add: default_config_def const_env_def error_frame_def)
  let ?e1 = "const_env (Resolved (error_frame 429 ''quota''))"
  let ?e2 = "const_env (Resolved (error_frame 500 ''boom''))"
  have i1: "is_immediate default_config (error_frame 429 ''quota'')"
    and n1: "\<not> json_text_resets (error_frame 429 ''quota'')"
    and i2: "\<not> is_immediate default_config (error_frame 500 ''boom'')"
    and n2: "\<not> json_text_resets (error_frame 500 ''boom'')"
    by (simp_all add: retry_eval)
  have a: "executeRequestWithRetries default_config ?e1 ''r1'' 0 =
      (Failure (Some (error_frame 429 ''quota'')), [ForwardRequest 1])"
    unfolding executeRequestWithRetries_def
    using immediate_switch_breaks [of 1 default_config ?e1 "error_frame 429 ''quota''" "''r1''" 0 0 None "[]"]
      i1 n1
    by (simp add: default_config_def const_env_def error_frame_def)
  have b: "retry_loop default_config ?e2 ''r1'' 1 0 0 None [] =
      retry_loop default_config ?e2 ''r1'' 2 1 0 (Some (error_frame 500 ''boom''))
        [ForwardRequest 1, CancelBrowserRequest ''r1'' 0, CloseQueue 0 ''retry_creating_new_queue'',
         CreateMessageQueue ''r1'' 0, Sleep 2000]"
    using immediate_switch_breaks [of 1 default_config ?e2 "error_frame 500 ''boom''" "''r1''" 0 0 None "[]"]
      i2 n2
    by (simp add: default_config_def const_env_def error_frame_def)
  have c: "retry_loop default_config ?e2 ''r1'' 3 2 0 None [] =
      (Failure (Some (error_frame 500 ''boom'')), [ForwardRequest 3])"
    using immediate_switch_breaks [of 3 default_config ?e2 "error_frame 500 ''boom''" "''r1''" 2 0 None "[]"]
      i2 n2
    by (simp add: default_config_def const_env_def error_frame_def)
  from a b c d show ?thesis by simp
qed

text \<open>
  Claim C7 as stated fails for an error frame whose text matches the connection-reset
  test: with the default configuration (three retries, immediate codes 429 and 503) an
  error frame with status 500 and the message \<^verbatim>\<open>Proxy browser error: Connection lost\<close>
  ends the loop after the first attempt, with the error 503.
\<close>

theorem error_frame_reset_text_counterexample:
  "executeRequestWithRetries default_config
     (const_env (Resolved (error_frame 500 ''Proxy browser error: Connection lost''))) ''r1'' 0 =
     (Failure (Some connection_lost_error), [ForwardRequest 1])"
  by (simp add: retry_eval)

lemma run_attempt_failure_some:
  "run_attempt cfg ev reqId attempt cq a = Done (Failure x) acts' \<Longrightarrow> x \<noteq> None"
  by (auto simp: run_attempt_def split: prod.splits sum.splits if_splits)

lemma run_attempt_again:
  "run_attempt cfg ev reqId attempt cq a = Again acts' auth err \<Longrightarrow>
   err \<noteq> None \<and> attempt < maxRetries cfg"
  by (auto simp: run_attempt_def split: prod.splits sum.splits if_splits)

lemma retry_loop_failure_some:
  "attempt \<le> maxRetries cfg \<Longrightarrow>
   retry_loop cfg ev reqId attempt cq a le acts = (Failure x, acts') \<Longrightarrow> x \<noteq> None"
proof (induction cfg ev reqId attempt cq a le acts rule: retry_loop.induct)
  case (1 cfg ev reqId attempt cq a le acts)
  show ?case
  proof (cases "run_attempt cfg ev reqId attempt cq a")
    case (Done r as)
    with "1.prems" have "r = Failure x"
      by (simp add: retry_loop_break)
    with Done show ?thesis
      using run_attempt_failure_some by blast
  next
    case (Again as auth err)
    then have lt: "attempt + 1 \<le> maxRetries cfg"
      using run_attempt_again by fastforce
    from Again "1.prems" have
      "retry_loop cfg ev reqId (attempt + 1) (Suc cq) auth err (acts @ as) = (Failure x, acts')"
      by (simp add: retry_loop_again)
    with "1.IH" [OF "1.prems"(1) Again lt] show ?thesis .
  qed
qed

text \<open>
  Claim C6. In an attempt of the retry loop whose awaited dequeue is rejected with
  \<open>QueueClosedError\<close>, the loop ends at that attempt, whatever the number of retries
  left, with the error \<^verbatim>\<open>{ message: "Connection lost (client disconnect)", status: 503 }\<close>;
  and on that error the non-stream handler leaves the failure counter alone, does not
  call \<^verbatim>\<open>handleRequestFailureAndSwitch\<close>, and answers 503 (when no response has been
  started).
\<close>

theorem queue_closed_aborts_retries:
  assumes "attempt \<le> maxRetries cfg"
    and "forward ev attempt = None"
    and "first ev attempt = Rejected (QueueClosedError m r)"
  shows "retry_loop cfg ev reqId attempt cq a le acts =
           (Failure (Some connection_lost_error), acts @ [ForwardRequest attempt]) \<and>
         status connection_lost_error = Some 503 \<and>
         failureCount (nonstream_failure isUserAborted fake (Some connection_lost_error) p) = failureCount p \<and>
         switchCalls (nonstream_failure isUserAborted fake (Some connection_lost_error) p) = switchCalls p \<and>
         (\<not> headersSent (res p) \<longrightarrow>
            calls (res (nonstream_failure isUserAborted fake (Some connection_lost_error) p)) =
              calls (res p) @ [SendError 503 (Some ''Connection lost (client disconnect)'')])"
proof -
  have "try_attempt ev attempt = (Inl (Thrown (QueueClosedError m r)), [ForwardRequest attempt])"
    using assms by (simp add: try_attempt_def)
  then have "run_attempt cfg ev reqId attempt cq a =
      Done (Failure (Some connection_lost_error)) [ForwardRequest attempt]"
    by (simp add: run_attempt_def isConnectionResetError_caught_def isConnectionResetError_def)
  with assms(1) have l: "retry_loop cfg ev reqId attempt cq a le acts =
      (Failure (Some connection_lost_error), acts @ [ForwardRequest attempt])"
    by (rule retry_loop_break)
  have rs: "isConnectionResetError_obj (Some connection_lost_error)"
    by (simp add: isConnectionResetError_obj_def connection_lost_error_def empty_frame_def
        reset_text_def str_includes_def sublist_code)
  have st: "status_or_500 connection_lost_error = 503"
    "message connection_lost_error = Some ''Connection lost (client disconnect)''"
    "status connection_lost_error = Some 503"
    by (simp_all add: status_or_500_def connection_lost_error_def empty_frame_def)
  show ?thesis
    using l rs st
    by (simp add: nonstream_failure_def sendErrorResponse_def Let_def)
qed

text \<open>
  Claim C10. With \<^verbatim>\<open>maxRetries\<close> below 1 the loop body never runs: nothing is forwarded
  and the result is \<^verbatim>\<open>{ success: false, error: null }\<close>; the failure branch of the
  non-stream handler then reads a property of \<^verbatim>\<open>null\<close>, and the \<open>TypeError\<close> ends in
  \<open>handleRequestError\<close>. With \<^verbatim>\<open>maxRetries\<close> at least 1 a failure result always
  carries an error.
\<close>

theorem zero_retries_null_error:
  "(maxRetries cfg < 1 \<longrightarrow>
      executeRequestWithRetries cfg ev reqId auth0 = (Failure None, []) \<and>
      handleNonStreamResponse isUserAborted fake cfg ev reqId auth0 gen rest p =
        ((p\<lparr>res := handleRequestError fake
                 (TypeError (null_read (if isUserAborted None then ''status'' else ''message'')))
                 (res p)\<rparr>, Returned), [])) \<and>
   (1 \<le> maxRetries cfg \<longrightarrow>
      (\<forall>x acts. executeRequestWithRetries cfg ev reqId auth0 = (Failure x, acts) \<longrightarrow> x \<noteq> None))"
proof -
  have a: "executeRequestWithRetries cfg ev reqId auth0 = (Failure None, []) \<and>
      handleNonStreamResponse isUserAborted fake cfg ev reqId auth0 gen rest p =
        ((p\<lparr>res := handleRequestError fake
                 (TypeError (null_read (if isUserAborted None then ''status'' else ''message'')))
                 (res p)\<rparr>, Returned), [])"
    if "maxRetries cfg < 1"
  proof -
    from that have e: "executeRequestWithRetries cfg ev reqId auth0 = (Failure None, [])"
      by (simp add: executeRequestWithRetries_def retry_loop_exit)
    then show ?thesis
      by (simp add: handleNonStreamResponse_def nonstream_failure_def)
  qed
  have b: "x \<noteq> None"
    if "1 \<le> maxRetries cfg" and "executeRequestWithRetries cfg ev reqId auth0 = (Failure x, acts)"
    for x acts
    using that unfolding executeRequestWithRetries_def by (rule retry_loop_failure_some)
  from a b show ?thesis by blast
qed

theorem zero_retries_null_error_witness:
  "maxRetries (default_config\<lparr>maxRetries := 0\<rparr>) < 1 \<and>
   executeRequestWithRetries (default_config\<lparr>maxRetries := 0\<rparr>)
     (const_env (Resolved (error_frame 500 ''boom''))) ''r1'' 0 = (Failure None, []) \<and>
   fst (handleNonStreamResponse (\<lambda>e. False) False (default_config\<lparr>maxRetries := 0\<rparr>)
     (const_env (Resolved (error_frame 500 ''boom''))) ''r1'' 0 True [] new_pipeline) =
     (new_pipeline\<lparr>res := handleRequestError False (TypeError (null_read ''message'')) new_response\<rparr>,
      Returned) \<and>
   1 \<le> maxRetries default_config \<and>
   fst (executeRequestWithRetries default_config
         (const_env (Resolved (error_frame 500 ''boom''))) ''r1'' 0) \<noteq> Failure None"
proof -
  let ?ev = "const_env (Resolved (error_frame 500 ''boom''))"
  have h0: "maxRetries (default_config\<lparr>maxRetries := 0\<rparr>) < 1"
    by (simp add: default_config_def)
  have h1: "1 \<le> maxRetries default_config"
    by (simp add: default_config_def)
  note t0 = zero_retries_null_error [of "default_config\<lparr>maxRetries := 0\<rparr>" ?ev "''r1''" 0
      "\<lambda>e. False" False True "[]" new_pipeline]
  note t1 = zero_retries_null_error [of default_config ?ev "''r1''" 0]
  from t1 h1 have "fst (executeRequestWithRetries default_config ?ev ''r1'' 0) \<noteq> Failure None"
    by (metis prod.collapse)
  with t0 h0 h1 show ?thesis
    by (simp add: new_pipeline_def)
qed

theorem queue_closed_aborts_retries_witness:
  "executeRequestWithRetries default_config
     (const_env (Rejected (QueueClosedError (closed_message ''connection_lost'') ''connection_lost'')))
     ''r1'' 0 = (Failure (Some connection_lost_error), [ForwardRequest 1]) \<and>
   failureCount (nonstream_failure (\<lambda>e. False) False (Some connection_lost_error) new_pipeline) = 0 \<and>
   calls (res (nonstream_failure (\<lambda>e. False) False (Some connection_lost_error) new_pipeline)) =
     [SendError 503 (Some ''Connection lost (client disconnect)'')]"
proof -
  let ?ev = "const_env (Rejected (QueueClosedError (closed_message ''connection_lost'') ''connection_lost''))"
  have h: "1 \<le> maxRetries default_config" "forward ?ev 1 = None"
    "first ?ev 1 = Rejected (QueueClosedError (closed_message ''connection_lost'') ''connection_lost'')"
    by (simp_all add: default_config_def const_env_def)
  have n: "\<not> headersSent (res new_pipeline)" "failureCount new_pipeline = 0"
    "calls (res new_pipeline) = []"
    by (simp_all add: new_pipeline_def new_response_def)
  from queue_closed_aborts_retries [OF h, of "''r1''" 0 0 None "[]" "\<lambda>e. False" False new_pipeline] n
  show ?thesis
    by (simp add: executeRequestWithRetries_def)
qed

section \<open>The pseudo-stream split and the image helper\<close>

lemma get_prop_not_null: "p \<noteq> JNull \<Longrightarrow> \<exists>v. get_prop p name = Inr v"
  by (cases p) (simp_all add: get_prop_def)

lemma thought_flags_no_null:
  "JNull \<notin> set ps \<Longrightarrow> thought_flags ps = Inr (map is_thought ps)"
proof (induction ps)
  case Nil
  show ?case by simp
next
  case (Cons p ps)
  then have "p \<noteq> JNull" by auto
  then obtain v where v: "get_prop p ''thought'' = Inr v"
    using get_prop_not_null by blast
  with Cons show ?case by (simp add: is_thought_def)
qed

lemma select_parts_filter:
  "select_parts b ps (map f ps) = filter (\<lambda>p. f p = b) ps"
  unfolding select_parts_def by (induction ps) auto

lemma split_writes_no_null:
  assumes "JNull \<notin> set ps"
  shows "split_writes (JObj gk) (JObj ck) (JObj tk) ps =
     Inr ((if filter is_thought ps \<noteq> []
           then [Write_data (thinkingResponse (filter is_thought ps) (role_or_model (map_of tk ''role'')))]
           else []) @
          (if filter (\<lambda>p. \<not> is_thought p) ps \<noteq> []
           then [Write_data (contentResponse (filter (\<lambda>p. \<not> is_thought p) ps)
                   (role_or_model (map_of tk ''role'')) (map_of ck ''finishReason'')
                   (map_of gk ''usageMetadata''))]
           else if truthy (map_of ck ''finishReason'')
           then [Write_data (contentResponse [] (role_or_model (map_of tk ''role''))
                   (map_of ck ''finishReason'') (map_of gk ''usageMetadata''))]
           else []))"
  using thought_flags_no_null [OF assms]
  by (simp add: split_writes_def get_prop_def select_parts_filter Let_def)

lemma res_write_fold_calls:
  "calls (foldl (\<lambda>r' w. res_write w r') r ws) = calls r @ ws"
  by (induction ws arbitrary: r) (simp_all add: res_write_def)

lemma res_write_fold_ended:
  "writableEnded (foldl (\<lambda>r' w. res_write w r') r ws) = writableEnded r"
  by (induction ws arbitrary: r) (simp_all add: res_write_def)

lemma set_sse_headers_fields:
  "calls (set_sse_headers r) = calls r" "writableEnded (set_sse_headers r) = writableEnded r"
  by (simp_all add: set_sse_headers_def)

text \<open>
  Claim C8, as amended. Let the accumulated body parse to an object whose
  \<^verbatim>\<open>candidates[0].content.parts\<close> is an array \<open>ps\<close> without \<^verbatim>\<open>null\<close>, with the thought
  parts \<open>filter is_thought ps\<close> and the other parts. The records written are: a
  thoughts-only record (no \<^verbatim>\<open>finishReason\<close>, no \<^verbatim>\<open>usageMetadata\<close>) if there is a thought
  part; then a content record, carrying the \<^verbatim>\<open>finishReason\<close> of the candidate and the
  \<^verbatim>\<open>usageMetadata\<close> of the response where they are defined, if there is another part;
  with no other part, a record with empty parts if the candidate has a truthy
  \<^verbatim>\<open>finishReason\<close>, and nothing otherwise. So thought parts and other parts give exactly
  two records, and other parts alone exactly one. These writes, then the end of the
  response, are all the handler does once the body is complete.
\<close>

theorem pseudo_stream_split_records:
  assumes "map_of gk ''candidates'' = Some (JArr (JObj ck # cands))"
    and "map_of ck ''content'' = Some (JObj tk)"
    and "map_of tk ''parts'' = Some (JArr ps)"
    and "JNull \<notin> set ps"
  shows "parse_and_split (Some (JObj gk)) fullData =
     (if filter is_thought ps \<noteq> []
      then [Write_data (thinkingResponse (filter is_thought ps) (role_or_model (map_of tk ''role'')))]
      else []) @
     (if filter (\<lambda>p. \<not> is_thought p) ps \<noteq> []
      then [Write_data (contentResponse (filter (\<lambda>p. \<not> is_thought p) ps)
              (role_or_model (map_of tk ''role'')) (map_of ck ''finishReason'')
              (map_of gk ''usageMetadata''))]
      else if truthy (map_of ck ''finishReason'')
      then [Write_data (contentResponse [] (role_or_model (map_of tk ''role''))
              (map_of ck ''finishReason'') (map_of gk ''usageMetadata''))]
      else []) \<and>
     (filter is_thought ps \<noteq> [] \<and> filter (\<lambda>p. \<not> is_thought p) ps \<noteq> [] \<longrightarrow>
        length (parse_and_split (Some (JObj gk)) fullData) = 2) \<and>
     (filter is_thought ps = [] \<and> filter (\<lambda>p. \<not> is_thought p) ps \<noteq> [] \<longrightarrow>
        length (parse_and_split (Some (JObj gk)) fullData) = 1) \<and>
     (accumulate [] rest = Acc_done fullData None \<and> parse fullData = Some (JObj gk) \<and>
      \<not> writableEnded r \<longrightarrow>
        calls (fst (pseudoStreamBody parse rest r)) =
          calls r @ parse_and_split (Some (JObj gk)) fullData @ [End])"
proof -
  have e: "parse_and_split (Some (JObj gk)) fullData =
     (if filter is_thought ps \<noteq> []
      then [Write_data (thinkingResponse (filter is_thought ps) (role_or_model (map_of tk ''role'')))]
      else []) @
     (if filter (\<lambda>p. \<not> is_thought p) ps \<noteq> []
      then [Write_data (contentResponse (filter (\<lambda>p. \<not> is_thought p) ps)
              (role_or_model (map_of tk ''role'')) (map_of ck ''finishReason'')
              (map_of gk ''usageMetadata''))]
      else if truthy (map_of ck ''finishReason'')
      then [Write_data (contentResponse [] (role_or_model (map_of tk ''role''))
              (map_of ck ''finishReason'') (map_of gk ''usageMetadata''))]
      else [])"
    using assms(1-3) split_writes_no_null [OF assms(4), of gk ck tk]
    by (simp add: parse_and_split_def get_prop_def optional_first_def truthy_def)
  have two: "filter is_thought ps \<noteq> [] \<and> filter (\<lambda>p. \<not> is_thought p) ps \<noteq> [] \<longrightarrow>
           length (parse_and_split (Some (JObj gk)) fullData) = 2"
    unfolding e by simp
  have one: "filter is_thought ps = [] \<and> filter (\<lambda>p. \<not> is_thought p) ps \<noteq> [] \<longrightarrow>
           length (parse_and_split (Some (JObj gk)) fullData) = 1"
    unfolding e by simp
  have h: "accumulate [] rest = Acc_done fullData None \<and> parse fullData = Some (JObj gk) \<and>
      \<not> writableEnded r \<longrightarrow>
        calls (fst (pseudoStreamBody parse rest r)) =
          calls r @ parse_and_split (Some (JObj gk)) fullData @ [End]"
    by (simp add: pseudoStreamBody_def Let_def end_if_open_def res_end_def res_write_fold_calls
        res_write_fold_ended set_sse_headers_fields)
  from e two one h show ?thesis by blast
qed

theorem pseudo_stream_split_records_witness:
  "parse_and_split
     (Some (JObj (gemini_response [thought_part, text_part] [(''finishReason'', JStr ''STOP'')]))) ''x'' =
     [Write_data (JObj [(''candidates'', JArr [JObj [(''content'',
          JObj [(''parts'', JArr [thought_part]), (''role'', JStr ''model'')])]])]),
      Write_data (JObj [(''candidates'', JArr [JObj [(''content'',
          JObj [(''parts'', JArr [text_part]), (''role'', JStr ''model'')]),
          (''finishReason'', JStr ''STOP'')]]),
        (''usageMetadata'', JObj [(''totalTokenCount'', JNum 7)])])]"
proof -
  let ?ck = "[(''content'', JObj [(''parts'', JArr [thought_part, text_part]), (''role'', JStr ''model'')]),
              (''finishReason'', JStr ''STOP'')]"
  let ?tk = "[(''parts'', JArr [thought_part, text_part]), (''role'', JStr ''model'')]"
  let ?gk = "gemini_response [thought_part, text_part] [(''finishReason'', JStr ''STOP'')]"
  have h: "map_of ?gk ''candidates'' = Some (JArr (JObj ?ck # []))"
    "map_of ?ck ''content'' = Some (JObj ?tk)"
    "map_of ?tk ''parts'' = Some (JArr [thought_part, text_part])"
    "JNull \<notin> set [thought_part, text_part]"
    by (simp_all add: gemini_response_def thought_part_def text_part_def)
  have f: "filter is_thought [thought_part, text_part] = [thought_part]"
    "filter (\<lambda>p. \<not> is_thought p) [thought_part, text_part] = [text_part]"
    by (simp_all add: is_thought_def get_prop_def thought_part_def text_part_def)
  from pseudo_stream_split_records [OF h, of "''x''"] f show ?thesis
    by (simp add: thinkingResponse_def contentResponse_def content_literal_def role_or_model_def
        truthy_def gemini_response_def)
qed

text \<open>
  Claim C8 as stated fails when the response has thought parts only and the candidate
  has no \<^verbatim>\<open>finishReason\<close>: one record is written, not two. (With no part at all and no
  \<^verbatim>\<open>finishReason\<close> nothing is written, not one record.)
\<close>

theorem thought_only_counterexample:
  "parse_and_split (Some (JObj (gemini_response [thought_part] []))) ''x'' =
     [Write_data (JObj [(''candidates'', JArr [JObj [(''content'',
          JObj [(''parts'', JArr [thought_part]), (''role'', JStr ''model'')])]])])] \<and>
   parse_and_split (Some (JObj (gemini_response [] []))) ''x'' = []"
  by (simp add: parse_and_split_def split_writes_def get_prop_def optional_first_def truthy_def
      select_parts_def thinkingResponse_def contentResponse_def content_literal_def
      role_or_model_def gemini_response_def thought_part_def Let_def)

lemma collect_chunks:
  "\<forall>d \<in> set ds. d \<noteq> [] \<Longrightarrow>
   collect acc (map (\<lambda>d. Resolved (chunk_frame d)) ds @ [Resolved stream_end]) = Body (acc @ ds)"
  by (induction ds arbitrary: acc) (simp_all add: chunk_frame_def stream_end_def empty_frame_def)

lemma findIndex_inlineData_less:
  "findIndex_inlineData ps = Inr (Some i) \<Longrightarrow> i < length ps"
  by (induction ps arbitrary: i) (auto split: sum.splits option.splits if_splits)

lemma findIndex_inlineData_append:
  assumes "\<forall>q \<in> set pre. q \<noteq> JNull \<and> \<not> truthy (inline_of q)"
    and "get_prop p ''inlineData'' = Inr v" and "truthy v"
  shows "findIndex_inlineData (pre @ p # post) = Inr (Some (length pre))"
  using assms(1)
proof (induction pre)
  case Nil
  show ?case using assms(2,3) by simp
next
  case (Cons q pre)
  then have q: "q \<noteq> JNull" "\<not> truthy (inline_of q)" by auto
  then obtain w where w: "get_prop q ''inlineData'' = Inr w"
    using get_prop_not_null by blast
  with q have "\<not> truthy w" by (simp add: inline_of_def)
  with w Cons show ?case by simp
qed

text \<open>
  The non-stream handler sends the concatenation of the chunk data as it is: it does
  not call the image helper, and no other handler does.
\<close>

lemma nonstream_success_sends_chunks:
  assumes "\<forall>d \<in> set ds. d \<noteq> []"
  shows "calls (res (fst (nonstream_success fake gen headerMessage
            (map (\<lambda>d. Resolved (chunk_frame d)) ds @ [Resolved stream_end]) p))) =
           calls (res p) @ [SetResponseHeaders headerMessage, TypeJsonIfUnset, Send (concat ds)]"
  using collect_chunks [OF assms, of "[]"]
  by (simp add: nonstream_success_def Let_def)

text \<open>
  The helper itself, on a body that parses to an object whose
  \<^verbatim>\<open>candidates[0].content.parts\<close> has a first part with an \<^verbatim>\<open>inlineData\<close> object (no \<^verbatim>\<open>null\<close>
  part before it) with the strings \<^verbatim>\<open>mimeType\<close> and \<^verbatim>\<open>data\<close>, returns the body serialised
  again with that part replaced by the single text part
  \<^verbatim>\<open>![Generated Image](data:<mime>;base64,<data>)\<close>.
\<close>

lemma processImageInResponse_rewrites:
  assumes h: "parse fullBody = Some (JObj gk)"
      "map_of gk ''candidates'' = Some (JArr (JObj ck # cands))"
      "map_of ck ''content'' = Some (JObj tk)"
      "map_of tk ''parts'' = Some (JArr (pre @ JObj pk # post))"
      "\<forall>q \<in> set pre. q \<noteq> JNull \<and> \<not> truthy (inline_of q)"
      "map_of pk ''inlineData'' = Some (JObj ik)"
      "map_of ik ''mimeType'' = Some (JStr mime)" "map_of ik ''data'' = Some (JStr b64)"
  shows "processImageInResponse parse stringify numstr fullBody =
            stringify (JObj (AList.update ''candidates''
              (JArr (JObj (AList.update ''content''
                 (JObj (AList.update ''parts''
                    (JArr (pre @ JObj [(''text'', JStr (''![Generated Image](data:'' @ mime @ '';base64,'' @ b64 @ '')''))]
                             # post)) tk)) ck) # cands)) gk))"
proof -
  have gp: "get_prop (JObj pk) ''inlineData'' = Inr (Some (JObj ik))"
    by (simp add: get_prop_def h(6))
  have tr: "truthy (Some (JObj ik))"
    by (simp add: truthy_def)
  have fi: "findIndex_inlineData (pre @ JObj pk # post) = Inr (Some (length pre))"
    using h(5) gp tr by (rule findIndex_inlineData_append)
  have rp: "replace_image_part numstr (pre @ JObj pk # post) =
      Inr (Some (pre @ JObj [(''text'', JStr (''![Generated Image](data:'' @ mime @ '';base64,'' @ b64 @ '')''))] # post))"
    using h(6-8)
    by (simp add: replace_image_part_def fi get_prop_def image_markdown_def template_def)
  show ?thesis
    using h(1-4) rp
    by (simp add: processImageInResponse_def processImage_json_def processImage_parts_def
        get_prop_def optional_first_def truthy_def with_parts_def set_prop_def set_first_def)
qed

text \<open>
  Claim C4 at a concrete input: a 200 response whose body is the JSON text \<open>image_body\<close>,
  which has one part with \<^verbatim>\<open>inlineData\<close> carrying \<^verbatim>\<open>mimeType\<close> and \<^verbatim>\<open>data\<close>. The non-stream
  handler sends that text unchanged, with no Markdown image in it. The helper
  \<open>processImageInResponse\<close> returns for the same text the body \<open>markdown_body\<close>, in which
  the part is the Markdown image that the claim describes, but the handler does not
  call it.
\<close>

theorem non_stream_image_not_rewritten:
  \<open>handleNonStreamResponse (\<lambda>e. False) False default_config (const_env (Resolved headers_frame))
      ''r1'' 0 True [Resolved (chunk_frame image_body), Resolved stream_end] new_pipeline =
     ((new_pipeline\<lparr>res := new_response\<lparr>headersSent := True, writableEnded := True,
          calls := [SetResponseHeaders headers_frame, TypeJsonIfUnset, Send image_body]\<rparr>\<rparr>,
       Returned), [ForwardRequest 1]) \<and>
   \<not> str_includes image_body ''![Generated Image]'' \<and>
   image_body \<noteq> markdown_body \<and>
   processImageInResponse image_parse image_stringify (\<lambda>n. []) image_body = markdown_body \<and>
   str_includes markdown_body ''![Generated Image](data:image/png;base64,AAAA)''\<close>
proof -
  have a: \<open>handleNonStreamResponse (\<lambda>e. False) False default_config (const_env (Resolved headers_frame))
      ''r1'' 0 True [Resolved (chunk_frame image_body), Resolved stream_end] new_pipeline =
     ((new_pipeline\<lparr>res := new_response\<lparr>headersSent := True, writableEnded := True,
          calls := [SetResponseHeaders headers_frame, TypeJsonIfUnset, Send image_body]\<rparr>\<rparr>,
       Returned), [ForwardRequest 1])\<close>
    by (simp add: handleNonStreamResponse_def nonstream_success_def retry_eval headers_frame_def
        chunk_frame_def stream_end_def new_pipeline_def new_response_def image_body_def Let_def)
  have b: \<open>\<not> str_includes image_body ''![Generated Image]''\<close>
    by (simp add: image_body_def str_includes_def sublist_code)
  have c: \<open>image_body \<noteq> markdown_body\<close>
    by (simp add: image_body_def markdown_body_def)
  let ?gk = "[(''candidates'', JArr [JObj [(''content'', JObj [(''parts'', JArr [image_part]), (''role'', JStr ''model'')])]])]"
  let ?ck = "[(''content'', JObj [(''parts'', JArr [image_part]), (''role'', JStr ''model'')])]"
  let ?tk = "[(''parts'', JArr [image_part]), (''role'', JStr ''model'')]"
  let ?pk = "[(''inlineData'', JObj [(''mimeType'', JStr ''image/png''), (''data'', JStr ''AAAA'')])]"
  let ?ik = "[(''mimeType'', JStr ''image/png''), (''data'', JStr ''AAAA'')]"
  have d: \<open>processImageInResponse image_parse image_stringify (\<lambda>n. []) image_body = markdown_body\<close>
    using processImageInResponse_rewrites [of image_parse image_body ?gk ?ck "[]" ?tk "[]" ?pk "[]" ?ik
        "''image/png''" "''AAAA''" image_stringify "\<lambda>n. []"]
    by (simp add: image_parse_def image_json_def image_part_def image_stringify_def markdown_part_def)
  have e: \<open>str_includes markdown_body ''![Generated Image](data:image/png;base64,AAAA)''\<close>
    by (simp add: markdown_body_def str_includes_def sublist_code)
  from a b c d e show ?thesis by simp
qed

section \<open>Redirect headers\<close>














































end
